theory Spec2Isabelle
  imports Complex_Main "HOL-Library.Multiset"
begin

section \<open>Inventory management system: the request handlers of app.py\<close>

text \<open>
  The program is a Flask application over an SQLite database with two tables, \<open>users\<close>
  and \<open>products\<close>. Each request handler of \<^verbatim>\<open>src/app.py\<close> becomes a function from the
  request and the database to the new database and the response (the flashed messages and
  the page that is rendered or redirected to). What the handlers obtain from outside the
  file is an argument of the model:
  \<^item> \<^verbatim>\<open>float\<close> and \<^verbatim>\<open>int\<close>, Python's conversions of the submitted text, are the functions
    \<open>tofloat\<close> and \<open>toint\<close>; \<open>None\<close> is the \<^verbatim>\<open>ValueError\<close> the handlers catch;
  \<^item> \<^verbatim>\<open>check_password_hash\<close> is the function \<open>chk\<close>, and the salted hash that
    \<^verbatim>\<open>generate_password_hash('admin123')\<close> returns in a call is the argument
    \<open>hashed_password\<close>;
  \<^item> the value of \<^verbatim>\<open>CURRENT_TIMESTAMP\<close> when an \<^verbatim>\<open>INSERT\<close> runs is the argument \<open>now\<close>.
  The SQL statements are given the meaning SQLite and Python's \<^verbatim>\<open>sqlite3\<close> module give
  them, including the failures a handler's \<^verbatim>\<open>except Exception\<close> catches. Opening the
  database file is taken to succeed.
\<close>

subsection \<open>Values\<close>

text \<open>
  A Python \<^verbatim>\<open>float\<close>: a finite double is denoted by the real number it stands for (the two
  zeros are not told apart: they compare equal), beside the infinities and NaN.
\<close>

datatype pyfloat = Finite real | PosInf | NegInf | NaN

text \<open>\<^verbatim>\<open>x < 0\<close> and \<^verbatim>\<open>x >= 0\<close> on floats; every comparison with NaN is false.\<close>

fun float_lt_zero :: "pyfloat \<Rightarrow> bool" where
  "float_lt_zero (Finite r) = (r < 0)"
| "float_lt_zero PosInf = False"
| "float_lt_zero NegInf = True"
| "float_lt_zero NaN = False"

fun float_ge_zero :: "pyfloat \<Rightarrow> bool" where
  "float_ge_zero (Finite r) = (0 \<le> r)"
| "float_ge_zero PosInf = True"
| "float_ge_zero NegInf = False"
| "float_ge_zero NaN = False"

fun isnan :: "pyfloat \<Rightarrow> bool" where
  "isnan NaN = True"
| "isnan (Finite r) = False"
| "isnan PosInf = False"
| "isnan NegInf = False"

text \<open>
  An SQLite \<^verbatim>\<open>INTEGER\<close> is a signed 64-bit integer; a Python \<^verbatim>\<open>int\<close> is unbounded.
\<close>

definition INT64_MAX :: int where
  "INT64_MAX = 9223372036854775807"

definition int64 :: "int \<Rightarrow> bool" where
  "int64 n = (- INT64_MAX - 1 \<le> n \<and> n \<le> INT64_MAX)"

text \<open>
  Strings are lists of 8-bit characters, read as the code points U+0000 to U+00FF.
  \<^verbatim>\<open>str.isspace\<close> on that range, and \<^verbatim>\<open>str.strip()\<close>, which removes the white space at
  both ends.
\<close>

definition isspace :: "char \<Rightarrow> bool" where
  "isspace c =
     (let n = (of_char c :: nat)
      in (9 \<le> n \<and> n \<le> 13) \<or> (28 \<le> n \<and> n \<le> 31) \<or> n = 32 \<or> n = 133 \<or> n = 160)"

definition strip :: "string \<Rightarrow> string" where
  "strip s = dropWhile isspace (rev (dropWhile isspace (rev s)))"

text \<open>
  The exceptions that reach a handler's \<^verbatim>\<open>except Exception as e\<close>, each with the text
  \<^verbatim>\<open>str(e)\<close> that the handler puts into its message.
\<close>

datatype exn =
    OverflowError string
  | IntegrityError string
  | OperationalError string
  | TypeError string

fun str_exn :: "exn \<Rightarrow> string" where
  "str_exn (OverflowError m) = m"
| "str_exn (IntegrityError m) = m"
| "str_exn (OperationalError m) = m"
| "str_exn (TypeError m) = m"

definition int_too_large :: exn where
  "int_too_large = OverflowError ''Python int too large to convert to SQLite INTEGER''"

definition price_not_null :: exn where
  "price_not_null = IntegrityError ''NOT NULL constraint failed: products.price''"

definition rowid_full :: exn where
  "rowid_full = OperationalError ''database or disk is full''"

definition sum_overflow :: exn where
  "sum_overflow = OperationalError ''integer overflow''"

definition none_not_iterable :: exn where
  "none_not_iterable = TypeError '''NoneType' object is not iterable''"

subsection \<open>The database (init_db, lines 38 to 55)\<close>

text \<open>
  \<^verbatim>\<open>users(id INTEGER PRIMARY KEY AUTOINCREMENT, username TEXT UNIQUE NOT NULL,
  password TEXT NOT NULL)\<close>; the \<open>password\<close> column holds the salted hash.
\<close>

record user =
  uid :: int
  username :: string
  password :: string

text \<open>
  \<^verbatim>\<open>products(id INTEGER PRIMARY KEY AUTOINCREMENT, product_name TEXT NOT NULL,
  category TEXT NOT NULL, price REAL NOT NULL, quantity INTEGER NOT NULL DEFAULT 0,
  created_at TIMESTAMP DEFAULT CURRENT_TIMESTAMP)\<close>. The time stamp has a resolution of
  one second and is modelled as the number of that second; no statement of the program
  writes another value than the default into the column.
\<close>

record product =
  pid :: int
  product_name :: string
  category :: string
  price :: pyfloat
  quantity :: int
  created_at :: nat

text \<open>
  The rows of a table are listed in the order of a table scan. \<open>products_seq\<close> is the
  entry of \<^verbatim>\<open>sqlite_sequence\<close> for \<open>products\<close>: the largest row id the table ever held.
\<close>

record db =
  users :: "user list"
  products :: "product list"
  products_seq :: int

definition empty_db :: db where
  "empty_db = \<lparr>users = [], products = [], products_seq = 0\<rparr>"

text \<open>
  The largest row id in use or ever used; a new row obtains the next one, and the
  \<^verbatim>\<open>INSERT\<close> fails when that would exceed the largest 64-bit integer.
\<close>

definition max_rowid :: "int \<Rightarrow> int list \<Rightarrow> int" where
  "max_rowid seq ids = fold max ids seq"

subsection \<open>Requests and responses\<close>

datatype http_method = GET | POST

text \<open>
  The fields of the product form, as \<^verbatim>\<open>request.form.get(name, '')\<close> reads them: a field
  that is absent is the empty string.
\<close>

record product_form =
  form_product_name :: string
  form_category :: string
  form_price :: string
  form_quantity :: string

text \<open>The statistics dictionary of the dashboard, and a listed product with its flag.\<close>

record stats =
  total_products :: int
  total_stock :: int
  low_stock_count :: int

record listed =
  item :: product
  is_low_stock :: bool

text \<open>
  What a handler returns: a redirect to an endpoint, or a rendered template with its
  arguments. The dashboard is rendered with the products, the statistics and the
  threshold; after an exception with no product, \<^verbatim>\<open>stats={}\<close> and no threshold.
\<close>

datatype page =
    Redirect string
  | Login_page
  | Add_product_page
  | Edit_product_page product
  | Dashboard_page "listed list" "stats option" "int option"

text \<open>The messages flashed while the request is handled, each with its category.\<close>

record response =
  flashes :: "(string \<times> string) list"
  page :: page

definition danger :: "string \<Rightarrow> string \<times> string" where
  "danger m = (m, ''danger'')"

definition success :: "string \<Rightarrow> string \<times> string" where
  "success m = (m, ''success'')"

text \<open>\<^verbatim>\<open>flash(f'An error occurred: {e}', 'danger')\<close>\<close>

definition error_occurred :: "exn \<Rightarrow> string \<times> string" where
  "error_occurred e = danger (''An error occurred: '' @ str_exn e)"

definition LOW_STOCK_THRESHOLD :: int where
  "LOW_STOCK_THRESHOLD = 10"

subsection \<open>The statements on the users table\<close>

text \<open>
  \<^verbatim>\<open>SELECT * FROM users WHERE username = ?\<close> followed by \<^verbatim>\<open>fetchone()\<close>: the first row
  whose user name is exactly the given text, or \<open>None\<close>.
\<close>

definition select_user :: "string \<Rightarrow> db \<Rightarrow> user option" where
  "select_user name s = find (\<lambda>u. username u = name) (users s)"

text \<open>
  \<^verbatim>\<open>INSERT INTO users (username, password) VALUES (?, ?)\<close> on a table without a row of
  that user name: the new row comes last, with an id larger than every id in the table.
\<close>

definition insert_user :: "string \<Rightarrow> string \<Rightarrow> db \<Rightarrow> db" where
  "insert_user name hash s =
     s\<lparr>users := users s @
        [\<lparr>uid = 1 + max_rowid 0 (map uid (users s)), username = name, password = hash\<rparr>]\<rparr>"

text \<open>
  init_db, lines 56 to 59: \<^verbatim>\<open>INSERT OR IGNORE INTO users (username, password)
  VALUES ('admin', hashed_password)\<close>. The column \<open>username\<close> is \<^verbatim>\<open>UNIQUE\<close>, so the
  statement is skipped when a row named admin exists. The \<^verbatim>\<open>CREATE TABLE IF NOT EXISTS\<close>
  statements before it leave existing tables as they are.
\<close>

definition init_db :: "string \<Rightarrow> db \<Rightarrow> db" where
  "init_db hashed_password s =
     (case select_user ''admin'' s of
        Some existing \<Rightarrow> s
      | None \<Rightarrow> insert_user ''admin'' hashed_password s)"

text \<open>create_admin, lines 346 to 373; the handler returns a text.\<close>

definition create_admin :: "string \<Rightarrow> db \<Rightarrow> db \<times> string" where
  "create_admin hashed_password s =
     (case select_user ''admin'' s of
        Some existing \<Rightarrow>
          (s, ''Admin user already exists. Login with username: admin, password: admin123'')
      | None \<Rightarrow>
          (insert_user ''admin'' hashed_password s,
           ''Admin user created successfully! Username: admin, Password: admin123''))"

subsection \<open>login (lines 98 to 135)\<close>

text \<open>
  The Flask session, as far as the program uses it: the keys \<open>user_id\<close> and \<open>username\<close>
  (absent: \<open>None\<close>) and the flag \<open>permanent\<close>.
\<close>

record session =
  permanent :: bool
  session_user_id :: "int option"
  session_username :: "string option"

definition invalid_login :: "session \<Rightarrow> session \<times> response" where
  "invalid_login sess =
     (sess, \<lparr>flashes = [danger ''Invalid username or password.''], page = Login_page\<rparr>)"

definition login ::
  "(string \<Rightarrow> string \<Rightarrow> bool) \<Rightarrow> http_method \<Rightarrow> string \<Rightarrow> string \<Rightarrow> session \<Rightarrow> db
     \<Rightarrow> session \<times> response" where
  "login chk m form_username form_password sess s =
     (if session_user_id sess \<noteq> None
      then (sess, \<lparr>flashes = [], page = Redirect ''dashboard''\<rparr>)
      else case m of
        GET \<Rightarrow> (sess, \<lparr>flashes = [], page = Login_page\<rparr>)
      | POST \<Rightarrow>
          (let name = strip form_username; pw = form_password
           in if name = [] \<or> pw = []
              then (sess, \<lparr>flashes = [danger ''Please enter both username and password.''],
                          page = Login_page\<rparr>)
              else case select_user name s of
                Some u \<Rightarrow>
                  if chk (password u) pw
                  then (sess\<lparr>permanent := True,
                             session_user_id := Some (uid u),
                             session_username := Some (username u)\<rparr>,
                        \<lparr>flashes = [success (''Welcome back, '' @ name @ ''!'')],
                         page = Redirect ''dashboard''\<rparr>)
                  else invalid_login sess
              | None \<Rightarrow> invalid_login sess))"

subsection \<open>The statements on the products table\<close>

text \<open>
  Binding a Python \<^verbatim>\<open>int\<close> that is not a 64-bit integer to a parameter raises
  \<^verbatim>\<open>OverflowError\<close> before the statement runs. A NaN bound to a parameter is stored as
  \<^verbatim>\<open>NULL\<close>, which the \<^verbatim>\<open>NOT NULL\<close> constraint of the column \<open>price\<close> rejects.

  \<^verbatim>\<open>SELECT * FROM products WHERE id = ?\<close> followed by \<^verbatim>\<open>fetchone()\<close>.
\<close>

definition select_product :: "int \<Rightarrow> db \<Rightarrow> exn + product option" where
  "select_product i s =
     (if int64 i then Inr (find (\<lambda>p. pid p = i) (products s)) else Inl int_too_large)"

text \<open>
  \<^verbatim>\<open>INSERT INTO products (product_name, category, price, quantity) VALUES (?, ?, ?, ?)\<close>
  followed by \<^verbatim>\<open>commit()\<close>. The row id is one more than the largest the table ever held
  (\<^verbatim>\<open>AUTOINCREMENT\<close>), and \<open>created_at\<close> is the current time stamp.
\<close>

definition insert_product ::
  "nat \<Rightarrow> string \<Rightarrow> string \<Rightarrow> pyfloat \<Rightarrow> int \<Rightarrow> db \<Rightarrow> exn + db" where
  "insert_product now name cat pr qty s =
     (let largest = max_rowid (products_seq s) (map pid (products s))
      in if int64 qty
         then if INT64_MAX \<le> largest then Inl rowid_full
              else if isnan pr then Inl price_not_null
              else Inr (s\<lparr>products := products s @
                            [\<lparr>pid = largest + 1, product_name = name, category = cat,
                              price = pr, quantity = qty, created_at = now\<rparr>],
                          products_seq := largest + 1\<rparr>)
         else Inl int_too_large)"

text \<open>
  \<^verbatim>\<open>UPDATE products SET product_name = ?, category = ?, price = ?, quantity = ?
  WHERE id = ?\<close> followed by \<^verbatim>\<open>commit()\<close>. A statement that matches no row changes
  nothing and raises nothing.
\<close>

definition update_product ::
  "int \<Rightarrow> string \<Rightarrow> string \<Rightarrow> pyfloat \<Rightarrow> int \<Rightarrow> db \<Rightarrow> exn + db" where
  "update_product i name cat pr qty s =
     (if int64 qty \<and> int64 i
      then if isnan pr \<and> find (\<lambda>p. pid p = i) (products s) \<noteq> None
           then Inl price_not_null
           else Inr (s\<lparr>products :=
                         map (\<lambda>p. if pid p = i
                                   then p\<lparr>product_name := name, category := cat, price := pr,
                                          quantity := qty\<rparr>
                                   else p)
                           (products s)\<rparr>)
      else Inl int_too_large)"

text \<open>\<^verbatim>\<open>DELETE FROM products WHERE id = ?\<close> followed by \<^verbatim>\<open>commit()\<close>.\<close>

definition delete_row :: "int \<Rightarrow> db \<Rightarrow> db" where
  "delete_row i s = s\<lparr>products := filter (\<lambda>p. pid p \<noteq> i) (products s)\<rparr>"

text \<open>
  \<^verbatim>\<open>SELECT * FROM products ORDER BY created_at DESC\<close>. SQL leaves the order of rows with
  equal time stamps open; the model keeps them in the order of the table.
\<close>

fun insert_desc :: "product \<Rightarrow> product list \<Rightarrow> product list" where
  "insert_desc p [] = [p]"
| "insert_desc p (q # qs) =
     (if created_at p < created_at q then q # insert_desc p qs else p # q # qs)"

fun order_by_created_at_desc :: "product list \<Rightarrow> product list" where
  "order_by_created_at_desc [] = []"
| "order_by_created_at_desc (p # ps) = insert_desc p (order_by_created_at_desc ps)"

definition select_products_newest_first :: "db \<Rightarrow> product list" where
  "select_products_newest_first s = order_by_created_at_desc (products s)"

text \<open>
  \<^verbatim>\<open>SUM(quantity)\<close>: \<^verbatim>\<open>NULL\<close> over no row; over integers an integer, and the error
  "integer overflow" when the running sum leaves the 64-bit range at any row.
\<close>

fun running_sum :: "int \<Rightarrow> int list \<Rightarrow> int option" where
  "running_sum acc [] = Some acc"
| "running_sum acc (x # xs) =
     (if int64 (acc + x) then running_sum (acc + x) xs else None)"

definition sql_sum :: "int list \<Rightarrow> exn + int option" where
  "sql_sum xs =
     (if xs = [] then Inr None
      else case running_sum 0 xs of
        None \<Rightarrow> Inl sum_overflow
      | Some t \<Rightarrow> Inr (Some t))"

text \<open>\<^verbatim>\<open>COALESCE(x, 0)\<close>\<close>

definition coalesce0 :: "int option \<Rightarrow> int" where
  "coalesce0 v = (case v of None \<Rightarrow> 0 | Some t \<Rightarrow> t)"

subsection \<open>dashboard (lines 146 to 181)\<close>

definition mark_low_stock :: "product \<Rightarrow> listed" where
  "mark_low_stock p = \<lparr>item = p, is_low_stock = (quantity p < LOW_STOCK_THRESHOLD)\<rparr>"

definition dashboard :: "db \<Rightarrow> response" where
  "dashboard s =
     (let rows = select_products_newest_first s
      in case sql_sum (map quantity (products s)) of
        Inl e \<Rightarrow> \<lparr>flashes = [error_occurred e], page = Dashboard_page [] None None\<rparr>
      | Inr summed \<Rightarrow>
          (let st = \<lparr>total_products = int (length (products s)),
                     total_stock = coalesce0 summed,
                     low_stock_count =
                       int (length (filter (\<lambda>p. quantity p < LOW_STOCK_THRESHOLD) (products s)))\<rparr>
           in \<lparr>flashes = [],
               page = Dashboard_page (map mark_low_stock rows) (Some st)
                        (Some LOW_STOCK_THRESHOLD)\<rparr>))"

subsection \<open>Validation (lines 194 to 213 of add_product, 260 to 279 of edit_product)\<close>

text \<open>
  Both handlers run the same four checks on the trimmed name, the trimmed category and
  the two numbers as submitted, and append one message for each check that fails.
\<close>

definition validation ::
  "(string \<Rightarrow> pyfloat option) \<Rightarrow> (string \<Rightarrow> int option)
     \<Rightarrow> string \<Rightarrow> string \<Rightarrow> string \<Rightarrow> string \<Rightarrow> string list" where
  "validation tofloat toint name cat pr qty =
     (if name = [] then [''Product name is required.''] else []) @
     (if cat = [] then [''Category is required.''] else []) @
     (case tofloat pr of
        None \<Rightarrow> [''Please enter a valid price.'']
      | Some x \<Rightarrow> if float_lt_zero x then [''Price cannot be negative.''] else []) @
     (case toint qty of
        None \<Rightarrow> [''Please enter a valid quantity.'']
      | Some n \<Rightarrow> if n < 0 then [''Quantity cannot be negative.''] else [])"

subsection \<open>add_product (lines 184 to 239)\<close>

text \<open>
  When a conversion raised, \<open>errors\<close> holds its message, so the handler leaves through
  \<^verbatim>\<open>if errors:\<close>; the numbers reach the \<^verbatim>\<open>INSERT\<close> only when both were converted.
\<close>

definition add_product ::
  "(string \<Rightarrow> pyfloat option) \<Rightarrow> (string \<Rightarrow> int option) \<Rightarrow> nat \<Rightarrow> http_method
     \<Rightarrow> product_form \<Rightarrow> db \<Rightarrow> db \<times> response" where
  "add_product tofloat toint now m f s =
     (case m of
        GET \<Rightarrow> (s, \<lparr>flashes = [], page = Add_product_page\<rparr>)
      | POST \<Rightarrow>
          (let name = strip (form_product_name f);
               cat = strip (form_category f);
               errors = validation tofloat toint name cat (form_price f) (form_quantity f);
               rejected = (s, \<lparr>flashes = map danger errors, page = Add_product_page\<rparr>)
           in case (tofloat (form_price f), toint (form_quantity f)) of
             (Some pr, Some qty) \<Rightarrow>
               if errors \<noteq> [] then rejected
               else (case insert_product now name cat pr qty s of
                       Inr s' \<Rightarrow>
                         (s', \<lparr>flashes = [success (''Product \"'' @ name @ ''\" added successfully!'')],
                               page = Redirect ''dashboard''\<rparr>)
                     | Inl e \<Rightarrow>
                         (s, \<lparr>flashes = [error_occurred e], page = Add_product_page\<rparr>))
           | (Some pr, None) \<Rightarrow> rejected
           | (None, qty) \<Rightarrow> rejected))"

subsection \<open>edit_product (lines 242 to 311)\<close>

text \<open>
  With errors, the handler flashes them and then reads the product again to render the
  form; \<^verbatim>\<open>dict(cursor.fetchone())\<close> raises \<^verbatim>\<open>TypeError\<close> when there is no such row.
  The messages flashed before an exception stay flashed.
\<close>

definition edit_product ::
  "(string \<Rightarrow> pyfloat option) \<Rightarrow> (string \<Rightarrow> int option) \<Rightarrow> int \<Rightarrow> http_method
     \<Rightarrow> product_form \<Rightarrow> db \<Rightarrow> db \<times> response" where
  "edit_product tofloat toint i m f s =
     (case m of
        POST \<Rightarrow>
          (let name = strip (form_product_name f);
               cat = strip (form_category f);
               errors = validation tofloat toint name cat (form_price f) (form_quantity f);
               rejected =
                 (case select_product i s of
                    Inr (Some p) \<Rightarrow>
                      (s, \<lparr>flashes = map danger errors, page = Edit_product_page p\<rparr>)
                  | Inr None \<Rightarrow>
                      (s, \<lparr>flashes = map danger errors @ [error_occurred none_not_iterable],
                           page = Redirect ''dashboard''\<rparr>)
                  | Inl e \<Rightarrow>
                      (s, \<lparr>flashes = map danger errors @ [error_occurred e],
                           page = Redirect ''dashboard''\<rparr>))
           in case (tofloat (form_price f), toint (form_quantity f)) of
             (Some pr, Some qty) \<Rightarrow>
               if errors \<noteq> [] then rejected
               else (case update_product i name cat pr qty s of
                       Inr s' \<Rightarrow>
                         (s', \<lparr>flashes = [success (''Product \"'' @ name @ ''\" updated successfully!'')],
                               page = Redirect ''dashboard''\<rparr>)
                     | Inl e \<Rightarrow>
                         (s, \<lparr>flashes = [error_occurred e], page = Redirect ''dashboard''\<rparr>))
           | (Some pr, None) \<Rightarrow> rejected
           | (None, qty) \<Rightarrow> rejected)
      | GET \<Rightarrow>
          (case select_product i s of
             Inr (Some p) \<Rightarrow> (s, \<lparr>flashes = [], page = Edit_product_page p\<rparr>)
           | Inr None \<Rightarrow>
               (s, \<lparr>flashes = [danger ''Product not found.''], page = Redirect ''dashboard''\<rparr>)
           | Inl e \<Rightarrow> (s, \<lparr>flashes = [error_occurred e], page = Redirect ''dashboard''\<rparr>)))"

subsection \<open>delete_product (lines 314 to 343)\<close>

definition delete_product :: "int \<Rightarrow> db \<Rightarrow> db \<times> response" where
  "delete_product i s =
     (case select_product i s of
        Inr (Some p) \<Rightarrow>
          (delete_row i s,
           \<lparr>flashes = [success (''Product \"'' @ product_name p @ ''\" deleted successfully!'')],
            page = Redirect ''dashboard''\<rparr>)
      | Inr None \<Rightarrow>
          (s, \<lparr>flashes = [danger ''Product not found.''], page = Redirect ''dashboard''\<rparr>)
      | Inl e \<Rightarrow> (s, \<lparr>flashes = [error_occurred e], page = Redirect ''dashboard''\<rparr>))"

subsection \<open>Sequences of requests\<close>

text \<open>
  The requests that can write to the products table, and the store after a sequence of
  them.
\<close>

datatype request =
    Add nat product_form
  | Edit int product_form
  | Delete int

fun handle ::
  "(string \<Rightarrow> pyfloat option) \<Rightarrow> (string \<Rightarrow> int option) \<Rightarrow> request \<Rightarrow> db \<Rightarrow> db" where
  "handle tofloat toint (Add now f) s = fst (add_product tofloat toint now POST f s)"
| "handle tofloat toint (Edit i f) s = fst (edit_product tofloat toint i POST f s)"
| "handle tofloat toint (Delete i) s = fst (delete_product i s)"

fun run ::
  "(string \<Rightarrow> pyfloat option) \<Rightarrow> (string \<Rightarrow> int option) \<Rightarrow> request list \<Rightarrow> db \<Rightarrow> db" where
  "run tofloat toint [] s = s"
| "run tofloat toint (r # rs) s = run tofloat toint rs (handle tofloat toint r s)"

subsection \<open>Conversions of the literals used in the examples\<close>

text \<open>
  The values of Python's \<^verbatim>\<open>float\<close> and \<^verbatim>\<open>int\<close> on the texts that the closed examples
  below submit. On every other text the tables answer \<open>None\<close>; the examples rely on that
  for \<^verbatim>\<open>int('abc')\<close> only, which raises \<^verbatim>\<open>ValueError\<close>.
\<close>

definition float_examples :: "string \<Rightarrow> pyfloat option" where
  "float_examples =
     map_of [(''4.5'', Finite (9 / 2)), (''5'', Finite 5), (''-1'', Finite (- 1)),
             (''nan'', NaN)]"

definition int_examples :: "string \<Rightarrow> int option" where
  "int_examples =
     map_of [(''5'', 5), (''50'', 50), (''-1'', - 1),
             (''4611686018427387904'', 4611686018427387904),
             (''9223372036854775808'', 9223372036854775808)]"

text \<open>
  A stand-in for \<^verbatim>\<open>check_password_hash\<close> in the closed examples: the stored text is
  the password behind a fixed prefix.
\<close>

definition check_examples :: "string \<Rightarrow> string \<Rightarrow> bool" where
  "check_examples hash pw = (hash = ''hash$'' @ pw)"

subsection \<open>The invariant of the data model\<close>

text \<open>Every stored row has a price and a quantity that are at least zero.\<close>

definition nonneg_rows :: "db \<Rightarrow> bool" where
  "nonneg_rows s = (\<forall>p \<in> set (products s). float_ge_zero (price p) \<and> 0 \<le> quantity p)"

section \<open>Lemmas\<close>

lemmas handler_defs =
  add_product_def edit_product_def delete_product_def validation_def strip_def isspace_def
  insert_product_def update_product_def select_product_def delete_row_def max_rowid_def
  int64_def INT64_MAX_def float_examples_def int_examples_def empty_db_def

subsection \<open>Trimming\<close>

lemma dropWhile_id: "xs = [] \<or> \<not> P (hd xs) \<Longrightarrow> dropWhile P xs = xs"
  by (cases xs) auto

lemma last_dropWhile: "dropWhile P xs \<noteq> [] \<Longrightarrow> last (dropWhile P xs) = last xs"
  by (induction xs) (auto split: if_splits)

lemma strip_idem: "strip (strip s) = strip s"
proof -
  define r where "r = rev (dropWhile isspace (rev s))"
  define t where "t = dropWhile isspace r"
  have r_last: "r = [] \<or> \<not> isspace (last r)"
  proof (cases "dropWhile isspace (rev s) = []")
    case True
    then show ?thesis by (simp add: r_def)
  next
    case False
    then have "\<not> isspace (hd (dropWhile isspace (rev s)))" by (rule hd_dropWhile)
    then show ?thesis using False by (simp add: r_def last_rev)
  qed
  have t_hd: "t = [] \<or> \<not> isspace (hd t)"
    unfolding t_def using hd_dropWhile[of isspace r] by blast
  have t_last: "t = [] \<or> \<not> isspace (last t)"
  proof (cases "t = []")
    case True
    then show ?thesis by simp
  next
    case False
    then have "last t = last r" unfolding t_def by (rule last_dropWhile)
    moreover have "r \<noteq> []" using False by (auto simp: t_def)
    ultimately show ?thesis using r_last by simp
  qed
  have "rev t = [] \<or> \<not> isspace (hd (rev t))"
    using t_last by (cases "t = []") (simp_all add: hd_rev)
  then have "dropWhile isspace (rev t) = rev t" by (rule dropWhile_id)
  then have "strip t = dropWhile isspace t" by (simp add: strip_def)
  also have "\<dots> = t" using t_hd by (rule dropWhile_id)
  finally have "strip t = t" .
  moreover have "strip s = t" by (simp add: strip_def t_def r_def)
  ultimately show ?thesis by simp
qed

subsection \<open>Row ids and sums\<close>

lemma le_fold_max: "(seq::int) \<le> fold max ids seq"
  by (induction ids arbitrary: seq) (auto intro: order_trans[OF max.cobounded2])

lemma mem_le_fold_max: "x \<in> set ids \<Longrightarrow> (x::int) \<le> fold max ids seq"
proof (induction ids arbitrary: seq)
  case Nil
  then show ?case by simp
next
  case (Cons a ids)
  show ?case
  proof (cases "x = a")
    case True
    have "a \<le> max a seq" by simp
    also have "\<dots> \<le> fold max ids (max a seq)" by (rule le_fold_max)
    finally show ?thesis using True by simp
  next
    case False
    then show ?thesis using Cons by simp
  qed
qed

lemma running_sum_nonneg:
  "\<forall>x \<in> set xs. 0 \<le> x \<Longrightarrow> - INT64_MAX - 1 \<le> acc \<Longrightarrow> acc + sum_list xs \<le> INT64_MAX
     \<Longrightarrow> running_sum acc xs = Some (acc + sum_list xs)"
proof (induction xs arbitrary: acc)
  case Nil
  then show ?case by simp
next
  case (Cons x xs)
  have nn: "0 \<le> sum_list xs" using Cons.prems(1) by (simp add: sum_list_nonneg)
  have "int64 (acc + x)" using Cons.prems nn by (simp add: int64_def)
  moreover have "running_sum (acc + x) xs = Some (acc + x + sum_list xs)"
    using Cons.prems by (intro Cons.IH) (simp_all add: add.assoc)
  ultimately show ?case by (simp add: add.assoc)
qed

subsection \<open>Ordering by time stamp\<close>

lemma mset_insert_desc: "mset (insert_desc p ps) = add_mset p (mset ps)"
  by (induction ps) auto

lemma mset_order_by: "mset (order_by_created_at_desc ps) = mset ps"
  by (induction ps) (auto simp: mset_insert_desc)

lemma set_insert_desc: "set (insert_desc p ps) = insert p (set ps)"
  by (induction ps) auto

lemma sorted_insert_desc:
  "sorted_wrt (\<lambda>a b. created_at b \<le> created_at a) ps
     \<Longrightarrow> sorted_wrt (\<lambda>a b. created_at b \<le> created_at a) (insert_desc p ps)"
  by (induction ps) (auto simp: set_insert_desc)

lemma sorted_order_by:
  "sorted_wrt (\<lambda>a b. created_at b \<le> created_at a) (order_by_created_at_desc ps)"
  by (induction ps) (auto simp: sorted_insert_desc)

subsection \<open>Validation and the invariant\<close>

lemma float_ge_zero_iff: "float_ge_zero x \<longleftrightarrow> \<not> float_lt_zero x \<and> \<not> isnan x"
  by (cases x) auto

lemma validation_Nil_iff:
  "validation tofloat toint name cat pr qty = [] \<longleftrightarrow>
     name \<noteq> [] \<and> cat \<noteq> [] \<and>
     (\<exists>x. tofloat pr = Some x \<and> \<not> float_lt_zero x) \<and>
     (\<exists>n. toint qty = Some n \<and> 0 \<le> n)"
  by (auto simp: validation_def split: option.splits)

lemma add_product_nonneg:
  "nonneg_rows s \<Longrightarrow> nonneg_rows (fst (add_product tofloat toint now m f s))"
  by (auto simp: add_product_def nonneg_rows_def Let_def insert_product_def validation_Nil_iff
      float_ge_zero_iff split: http_method.splits option.splits sum.splits if_splits)

lemma edit_product_nonneg:
  "nonneg_rows s \<Longrightarrow> nonneg_rows (fst (edit_product tofloat toint i m f s))"
  by (auto simp: edit_product_def nonneg_rows_def Let_def update_product_def validation_Nil_iff
      float_ge_zero_iff find_None_iff split: http_method.splits option.splits sum.splits if_splits)

lemma delete_product_nonneg:
  "nonneg_rows s \<Longrightarrow> nonneg_rows (fst (delete_product i s))"
  by (auto simp: delete_product_def nonneg_rows_def delete_row_def
      split: option.splits sum.splits)

lemma run_nonneg: "nonneg_rows s \<Longrightarrow> nonneg_rows (run tofloat toint reqs s)"
proof (induction reqs arbitrary: s)
  case Nil
  then show ?case by simp
next
  case (Cons r reqs)
  have "nonneg_rows (handle tofloat toint r s)"
    using Cons.prems
    by (cases r) (simp_all add: add_product_nonneg edit_product_nonneg delete_product_nonneg)
  then show ?case by (simp add: Cons.IH)
qed

lemma add_product_rejects:
  assumes "\<not> (\<exists>x n. tofloat (form_price f) = Some x \<and> float_ge_zero x \<and>
                  toint (form_quantity f) = Some n \<and> 0 \<le> n)"
  shows "fst (add_product tofloat toint now m f s) = s"
  using assms
  by (auto simp: add_product_def Let_def insert_product_def validation_Nil_iff
      float_ge_zero_iff split: http_method.splits option.splits sum.splits if_splits)

lemma edit_product_rejects:
  assumes "\<not> (\<exists>x n. tofloat (form_price f) = Some x \<and> float_ge_zero x \<and>
                  toint (form_quantity f) = Some n \<and> 0 \<le> n)"
  shows "fst (edit_product tofloat toint i m f s) = s"
proof (cases m)
  case GET
  then show ?thesis
    by (simp add: edit_product_def split: sum.splits option.splits)
next
  case POST
  show ?thesis
  proof (cases "tofloat (form_price f)")
    case None
    then show ?thesis using POST
      by (simp add: edit_product_def Let_def split: sum.splits option.splits)
  next
    case (Some x)
    note px = this
    show ?thesis
    proof (cases "toint (form_quantity f)")
      case None
      then show ?thesis using POST px
        by (simp add: edit_product_def Let_def split: sum.splits option.splits)
    next
      case (Some n)
      have bad: "\<not> (float_ge_zero x \<and> 0 \<le> n)" using assms px Some by simp
      show ?thesis
      proof (cases "validation tofloat toint (strip (form_product_name f))
                      (strip (form_category f)) (form_price f) (form_quantity f) = []")
        case False
        then show ?thesis using POST px Some
          by (simp add: edit_product_def Let_def split: sum.splits option.splits)
      next
        case True
        then have "\<not> float_lt_zero x" "0 \<le> n"
          using px Some by (simp_all add: validation_Nil_iff)
        with bad have nan: "isnan x" by (simp add: float_ge_zero_iff)
        have "map (\<lambda>p. if pid p = i
                 then p\<lparr>product_name := strip (form_product_name f),
                        category := strip (form_category f), price := x, quantity := n\<rparr>
                 else p) (products s) = products s"
          if "find (\<lambda>p. pid p = i) (products s) = None"
          using that by (auto simp: find_None_iff intro: map_idI)
        then show ?thesis using POST px Some True nan
          by (simp add: edit_product_def Let_def update_product_def
              split: sum.splits option.splits)
      qed
    qed
  qed
qed

subsection \<open>Reporting the violations\<close>

lemma validation_messages:
  "(''Product name is required.'' \<in> set (validation tofloat toint name cat pr qty)
      \<longleftrightarrow> name = [])"
  "(''Category is required.'' \<in> set (validation tofloat toint name cat pr qty)
      \<longleftrightarrow> cat = [])"
  "(''Please enter a valid price.'' \<in> set (validation tofloat toint name cat pr qty)
      \<longleftrightarrow> tofloat pr = None)"
  "(''Price cannot be negative.'' \<in> set (validation tofloat toint name cat pr qty)
      \<longleftrightarrow> (\<exists>x. tofloat pr = Some x \<and> float_lt_zero x))"
  "(''Please enter a valid quantity.'' \<in> set (validation tofloat toint name cat pr qty)
      \<longleftrightarrow> toint qty = None)"
  "(''Quantity cannot be negative.'' \<in> set (validation tofloat toint name cat pr qty)
      \<longleftrightarrow> (\<exists>n. toint qty = Some n \<and> n < 0))"
  by (auto simp: validation_def split: option.splits)

lemma float_lt_zero_iff: "float_lt_zero x \<longleftrightarrow> \<not> float_ge_zero x \<and> \<not> isnan x"
  by (cases x) auto

lemma validation_price_message:
  "(''Price cannot be negative.'' \<in> set (validation tofloat toint name cat pr qty)
      \<longleftrightarrow> (\<exists>x. tofloat pr = Some x \<and> \<not> float_ge_zero x \<and> \<not> isnan x))"
  using validation_messages(4)[of tofloat toint name cat pr qty]
  by (simp add: float_lt_zero_iff)

lemma add_product_invalid:
  assumes "validation tofloat toint (strip (form_product_name f)) (strip (form_category f))
             (form_price f) (form_quantity f) \<noteq> []"
  shows "add_product tofloat toint now POST f s =
     (s, \<lparr>flashes = map danger (validation tofloat toint (strip (form_product_name f))
                        (strip (form_category f)) (form_price f) (form_quantity f)),
          page = Add_product_page\<rparr>)"
  using assms by (simp add: add_product_def Let_def split: option.splits)

lemma edit_product_invalid:
  assumes "validation tofloat toint (strip (form_product_name f)) (strip (form_category f))
             (form_price f) (form_quantity f) \<noteq> []"
  shows "fst (edit_product tofloat toint i POST f s) = s \<and>
     (\<exists>rest. flashes (snd (edit_product tofloat toint i POST f s)) =
        map danger (validation tofloat toint (strip (form_product_name f))
                      (strip (form_category f)) (form_price f) (form_quantity f)) @ rest)"
  using assms by (simp add: edit_product_def Let_def split: option.splits sum.splits)

subsection \<open>login\<close>

lemma select_user_username: "select_user name s = Some u \<Longrightarrow> username u = name"
  by (auto simp: select_user_def find_Some_iff)

lemma login_invalid:
  assumes "session_user_id sess = None" "strip u \<noteq> []" "p \<noteq> []"
    and "select_user (strip u) s = None \<or>
         (\<exists>usr. select_user (strip u) s = Some usr \<and> \<not> chk (password usr) p)"
  shows "login chk POST u p sess s = invalid_login sess"
  using assms by (auto simp: login_def Let_def)

lemma login_success:
  assumes "session_user_id sess = None" "strip u \<noteq> []" "p \<noteq> []"
    and "select_user (strip u) s = Some usr" "chk (password usr) p"
  shows "login chk POST u p sess s =
     (sess\<lparr>permanent := True, session_user_id := Some (uid usr),
            session_username := Some (strip u)\<rparr>,
      \<lparr>flashes = [success (''Welcome back, '' @ strip u @ ''!'')],
       page = Redirect ''dashboard''\<rparr>)"
  using assms select_user_username[OF assms(4)] by (simp add: login_def Let_def)

lemma login_missing_field:
  assumes "strip u = [] \<or> p = []"
  shows "login chk m u p sess s =
     (if session_user_id sess \<noteq> None then (sess, \<lparr>flashes = [], page = Redirect ''dashboard''\<rparr>)
      else case m of
        GET \<Rightarrow> (sess, \<lparr>flashes = [], page = Login_page\<rparr>)
      | POST \<Rightarrow> (sess, \<lparr>flashes = [danger ''Please enter both username and password.''],
                        page = Login_page\<rparr>))"
  using assms by (auto simp: login_def Let_def split: http_method.splits)

lemma login_strip: "login chk m u p sess s = login chk m (strip u) p sess s"
  by (cases m) (simp_all add: login_def strip_idem)

subsection \<open>Looking rows up\<close>

lemma find_Some_mem: "find P xs = Some x \<Longrightarrow> x \<in> set xs \<and> P x"
  by (auto simp: find_Some_iff)

lemma find_append_new:
  "\<forall>x \<in> set xs. \<not> P x \<Longrightarrow> P y \<Longrightarrow> find P (xs @ [y]) = Some y"
  by (induction xs) auto

lemma pid_below_next:
  "p \<in> set (products s) \<Longrightarrow> pid p \<noteq> max_rowid (products_seq s) (map pid (products s)) + 1"
  using mem_le_fold_max[of "pid p" "map pid (products s)" "products_seq s"]
  by (auto simp: max_rowid_def)

lemma filter_distinct_single:
  "distinct (map f xs) \<Longrightarrow> x \<in> set xs \<Longrightarrow> filter (\<lambda>y. f y = f x) xs = [x]"
proof (induction xs)
  case Nil
  then show ?case by simp
next
  case (Cons a xs)
  show ?case
  proof (cases "x = a")
    case True
    then have "f a \<notin> set (map f xs)" using Cons.prems by simp
    then have "\<forall>y \<in> set xs. f y \<noteq> f a" by (metis image_eqI set_map)
    then have "filter (\<lambda>y. f y = f a) xs = []" by (simp add: filter_empty_conv)
    then show ?thesis using True by simp
  next
    case False
    then have "x \<in> set xs" using Cons.prems by simp
    moreover have "f a \<noteq> f x" using Cons.prems \<open>x \<in> set xs\<close> by auto
    ultimately show ?thesis using Cons by simp
  qed
qed

lemma delete_exactly_one:
  assumes "distinct (map pid (products s))" and "find (\<lambda>p. pid p = i) (products s) = Some p"
  shows "mset (products s) = add_mset p (mset (filter (\<lambda>q. pid q \<noteq> i) (products s)))"
proof -
  have p: "p \<in> set (products s)" "pid p = i" using find_Some_mem[OF assms(2)] by simp_all
  have "filter (\<lambda>q. pid q = pid p) (products s) = [p]"
    using assms(1) p(1) by (rule filter_distinct_single)
  then have one: "filter (\<lambda>q. pid q = i) (products s) = [p]" using p(2) by simp
  have "mset (products s) =
      filter_mset (\<lambda>q. pid q = i) (mset (products s)) +
      filter_mset (\<lambda>q. \<not> pid q = i) (mset (products s))"
    by (rule multiset_partition)
  also have "\<dots> = mset (filter (\<lambda>q. pid q = i) (products s)) +
      mset (filter (\<lambda>q. pid q \<noteq> i) (products s))"
    by (simp only: mset_filter)
  also have "\<dots> = {#p#} + mset (filter (\<lambda>q. pid q \<noteq> i) (products s))"
    by (simp only: one mset.simps)
  also have "\<dots> = add_mset p (mset (filter (\<lambda>q. pid q \<noteq> i) (products s)))"
    by simp
  finally show ?thesis .
qed

lemma get_after_delete:
  assumes "int64 i"
  shows "edit_product tofloat toint i GET f (fst (delete_product i s)) =
     (fst (delete_product i s),
      \<lparr>flashes = [danger ''Product not found.''], page = Redirect ''dashboard''\<rparr>)"
proof -
  have "find (\<lambda>p. pid p = i) (products (fst (delete_product i s))) = None"
    using assms
    by (auto simp: delete_product_def select_product_def delete_row_def find_None_iff
        split: option.splits)
  then show ?thesis using assms by (simp add: edit_product_def select_product_def)
qed

subsection \<open>The statistics\<close>

lemma sql_sum_nonneg:
  assumes "\<forall>x \<in> set xs. 0 \<le> x" and "sum_list xs \<le> INT64_MAX"
  shows "sql_sum xs = Inr (if xs = [] then None else Some (sum_list xs))"
proof -
  have "running_sum 0 xs = Some (0 + sum_list xs)"
    using assms by (intro running_sum_nonneg) (simp_all add: INT64_MAX_def)
  then show ?thesis by (simp add: sql_sum_def)
qed

lemma item_mark_low_stock: "map (item \<circ> mark_low_stock) ps = ps"
  by (induction ps) (simp_all add: mark_low_stock_def)

subsection \<open>The users table\<close>

lemma filter_distinct_le_1:
  "distinct (map f xs) \<Longrightarrow> length (filter (\<lambda>x. f x = k) xs) \<le> 1"
proof (induction xs)
  case Nil
  then show ?case by simp
next
  case (Cons x xs)
  show ?case
  proof (cases "f x = k")
    case True
    then have "k \<notin> f ` set xs" using Cons.prems by auto
    then have "filter (\<lambda>x. f x = k) xs = []" by (auto simp: filter_empty_conv)
    then show ?thesis using True by simp
  next
    case False
    then show ?thesis using Cons by simp
  qed
qed

lemma select_user_None_iff: "select_user name s = None \<longleftrightarrow> name \<notin> username ` set (users s)"
  by (auto simp: select_user_def find_None_iff)

lemma init_db_has_admin: "select_user ''admin'' (init_db h s) \<noteq> None"
  by (auto simp: init_db_def select_user_def insert_user_def find_None_iff
      split: option.splits dest: find_Some_mem)

lemma init_db_fixed: "select_user ''admin'' s \<noteq> None \<Longrightarrow> init_db h s = s"
  by (auto simp: init_db_def split: option.splits)

lemma fold_init_db_fixed:
  "select_user ''admin'' s \<noteq> None \<Longrightarrow> fold init_db hs s = s"
  by (induction hs) (simp_all add: init_db_fixed)

lemma init_db_distinct:
  "distinct (map username (users s)) \<Longrightarrow> distinct (map username (users (init_db h s)))"
  by (auto simp: init_db_def insert_user_def select_user_None_iff split: option.splits)

lemma one_admin:
  assumes "distinct (map username (users s))" and "select_user ''admin'' s \<noteq> None"
  shows "length (filter (\<lambda>u. username u = ''admin'') (users s)) = 1"
proof -
  have "length (filter (\<lambda>u. username u = ''admin'') (users s)) \<le> 1"
    using assms(1) by (rule filter_distinct_le_1)
  moreover have "filter (\<lambda>u. username u = ''admin'') (users s) \<noteq> []"
    using assms(2) by (auto simp: select_user_None_iff filter_empty_conv)
  ultimately show ?thesis
    by (cases "filter (\<lambda>u. username u = ''admin'') (users s)") simp_all
qed

section \<open>The claims\<close>

subsection \<open>C1: updating a product that does not exist\<close>

text \<open>
  Claim C1 says that an update of a product id that is not in the store, with a valid
  payload, fails with NotFound and leaves the store unchanged. The \<^verbatim>\<open>POST\<close> branch of
  edit_product does not look the row up before the \<^verbatim>\<open>UPDATE\<close>: on the empty store, the
  update of product 1 with the payload (Aspirin, Pharmacy, 4.5, 5) leaves the store
  unchanged, flashes the message of success and redirects to the dashboard. The
  message "Product not found." is flashed by the \<^verbatim>\<open>GET\<close> branch and by delete_product
  only.
\<close>

theorem edit_product_missing_id_reports_success:
  "edit_product float_examples int_examples 1 POST
       \<lparr>form_product_name = ''Aspirin'', form_category = ''Pharmacy'',
        form_price = ''4.5'', form_quantity = ''5''\<rparr> empty_db =
     (empty_db,
      \<lparr>flashes = [success ''Product \"Aspirin\" updated successfully!''],
       page = Redirect ''dashboard''\<rparr>)"
  by (simp add: handler_defs)

subsection \<open>C2: no stored price or quantity is negative\<close>

text \<open>
  Claim C2: after every sequence of insert, update and delete requests that starts from
  the empty store, every stored row has a price and a quantity that are at least zero; and
  a submission whose price or quantity is not converted to a number that is at least zero
  leaves the store as it was, in add_product and in edit_product. (A NaN passes the
  validation, since \<^verbatim>\<open>nan < 0\<close> is false, and is then refused by the \<^verbatim>\<open>NOT NULL\<close>
  constraint of the column: it does not reach the table either.)
\<close>

theorem stored_rows_nonnegative:
  "(\<forall>p \<in> set (products (run tofloat toint reqs empty_db)).
       float_ge_zero (price p) \<and> 0 \<le> quantity p) \<and>
   (\<not> (\<exists>x n. tofloat (form_price f) = Some x \<and> float_ge_zero x \<and>
               toint (form_quantity f) = Some n \<and> 0 \<le> n)
      \<longrightarrow> fst (add_product tofloat toint now m f s) = s \<and>
          fst (edit_product tofloat toint i m f s) = s)"
proof -
  have "nonneg_rows empty_db" by (simp add: nonneg_rows_def empty_db_def)
  then have "nonneg_rows (run tofloat toint reqs empty_db)" by (rule run_nonneg)
  then show ?thesis
    using add_product_rejects[of tofloat f toint now m s]
      edit_product_rejects[of tofloat f toint i m s]
    unfolding nonneg_rows_def by blast
qed

text \<open>
  An instance: a valid insert, an insert with the price -1 and an update with the price
  NaN, from the empty store. Only the first one writes, and its row is non-negative.
\<close>

theorem stored_rows_nonnegative_witness:
  "products (run float_examples int_examples
      [Add 100 \<lparr>form_product_name = ''Aspirin'', form_category = ''Pharmacy'',
                form_price = ''4.5'', form_quantity = ''5''\<rparr>,
       Add 101 \<lparr>form_product_name = ''Bandage'', form_category = ''Pharmacy'',
                form_price = ''-1'', form_quantity = ''5''\<rparr>,
       Edit 1 \<lparr>form_product_name = ''Aspirin'', form_category = ''Pharmacy'',
               form_price = ''nan'', form_quantity = ''5''\<rparr>]
      empty_db) =
     [\<lparr>pid = 1, product_name = ''Aspirin'', category = ''Pharmacy'', price = Finite (9 / 2),
       quantity = 5, created_at = 100\<rparr>] \<and>
   float_ge_zero (Finite (9 / 2)) \<and> (0::int) \<le> 5 \<and>
   float_examples ''-1'' = Some (Finite (- 1)) \<and> \<not> float_ge_zero (Finite (- 1)) \<and>
   fst (add_product float_examples int_examples 101 POST
          \<lparr>form_product_name = ''Bandage'', form_category = ''Pharmacy'',
           form_price = ''-1'', form_quantity = ''5''\<rparr> empty_db) = empty_db \<and>
   fst (edit_product float_examples int_examples 1 POST
          \<lparr>form_product_name = ''Bandage'', form_category = ''Pharmacy'',
           form_price = ''-1'', form_quantity = ''5''\<rparr> empty_db) = empty_db"
proof -
  let ?a = "\<lparr>form_product_name = ''Aspirin'', form_category = ''Pharmacy'',
             form_price = ''4.5'', form_quantity = ''5''\<rparr>"
  let ?b = "\<lparr>form_product_name = ''Bandage'', form_category = ''Pharmacy'',
             form_price = ''-1'', form_quantity = ''5''\<rparr>"
  let ?n = "\<lparr>form_product_name = ''Aspirin'', form_category = ''Pharmacy'',
             form_price = ''nan'', form_quantity = ''5''\<rparr>"
  let ?row = "\<lparr>pid = 1, product_name = ''Aspirin'', category = ''Pharmacy'',
               price = Finite (9 / 2), quantity = 5, created_at = 100\<rparr>"
  let ?reqs = "[Add 100 ?a, Add 101 ?b, Edit 1 ?n]"
  have run_eq: "products (run float_examples int_examples ?reqs empty_db) = [?row]"
    by (simp add: handler_defs)
  have conv: "float_examples (form_price ?b) = Some (Finite (- 1))"
    by (simp add: float_examples_def)
  have bad: "\<not> (\<exists>x n. float_examples (form_price ?b) = Some x \<and> float_ge_zero x \<and>
                     int_examples (form_quantity ?b) = Some n \<and> 0 \<le> n)"
    using conv by auto
  note inst =
    stored_rows_nonnegative[of float_examples int_examples ?reqs ?b 101 POST empty_db 1]
  have "float_ge_zero (price ?row) \<and> 0 \<le> quantity ?row"
    using inst run_eq by simp
  moreover have
    "fst (add_product float_examples int_examples 101 POST ?b empty_db) = empty_db \<and>
     fst (edit_product float_examples int_examples 1 POST ?b empty_db) = empty_db"
    using inst bad by blast
  ultimately show ?thesis using run_eq conv by simp
qed

subsection \<open>C3: every violated rule is reported\<close>

text \<open>
  The claim as it is written names the rule on the price "parseable non-negative price".
  The handlers test \<^verbatim>\<open>price < 0\<close>, which is false for NaN: the text \<^verbatim>\<open>nan\<close> is converted
  by \<^verbatim>\<open>float\<close>, the result is not at least zero, and the validation reports no violation
  for it. The insert then fails at the \<^verbatim>\<open>NOT NULL\<close> constraint of the column, with the
  message of the exception and not with a message of the validation.
\<close>

theorem validation_nan_not_reported:
  "float_examples ''nan'' = Some NaN \<and> \<not> float_ge_zero NaN \<and>
   validation float_examples int_examples (strip ''Aspirin'') (strip ''Pharmacy'') ''nan''
       ''5'' = [] \<and>
   add_product float_examples int_examples 100 POST
       \<lparr>form_product_name = ''Aspirin'', form_category = ''Pharmacy'', form_price = ''nan'',
        form_quantity = ''5''\<rparr> empty_db =
     (empty_db,
      \<lparr>flashes = [(''An error occurred: NOT NULL constraint failed: products.price'',
                   ''danger'')],
       page = Add_product_page\<rparr>)"
  by (simp add: handler_defs Let_def error_occurred_def danger_def price_not_null_def)

text \<open>
  Claim C3, amended: for every submission to add_product or edit_product, each of the
  four rules is evaluated on its own field, whatever the other fields hold, and the
  message of a rule is among the messages reported exactly when that rule is violated:
  the name is empty after trimming; the category is empty after trimming; the price is
  not converted, or is converted to a number that is neither at least zero nor NaN; the
  quantity is not converted, or is converted to an integer below zero. When there is a
  violation, add_product flashes exactly these messages and writes nothing;
  edit_product flashes them first and writes nothing. With conversions that read
  \<^verbatim>\<open>-1\<close> as the number -1 and refuse \<^verbatim>\<open>abc\<close>, as Python's do, the insert of (Bandage,
  empty category, -1, abc) fails with exactly three messages: empty category, negative
  price, quantity that is no integer.
\<close>

theorem validation_reports_every_violation:
  "(''Product name is required.'' \<in> set (validation tofloat toint name cat pr qty)
      \<longleftrightarrow> name = []) \<and>
   (''Category is required.'' \<in> set (validation tofloat toint name cat pr qty)
      \<longleftrightarrow> cat = []) \<and>
   (''Please enter a valid price.'' \<in> set (validation tofloat toint name cat pr qty)
      \<longleftrightarrow> tofloat pr = None) \<and>
   (''Price cannot be negative.'' \<in> set (validation tofloat toint name cat pr qty)
      \<longleftrightarrow> (\<exists>x. tofloat pr = Some x \<and> \<not> float_ge_zero x \<and> \<not> isnan x)) \<and>
   (''Please enter a valid quantity.'' \<in> set (validation tofloat toint name cat pr qty)
      \<longleftrightarrow> toint qty = None) \<and>
   (''Quantity cannot be negative.'' \<in> set (validation tofloat toint name cat pr qty)
      \<longleftrightarrow> (\<exists>n. toint qty = Some n \<and> n < 0)) \<and>
   (validation tofloat toint (strip (form_product_name f)) (strip (form_category f))
        (form_price f) (form_quantity f) \<noteq> []
      \<longrightarrow> add_product tofloat toint now POST f s =
            (s, \<lparr>flashes = map danger (validation tofloat toint (strip (form_product_name f))
                               (strip (form_category f)) (form_price f) (form_quantity f)),
                 page = Add_product_page\<rparr>) \<and>
          fst (edit_product tofloat toint i POST f s) = s \<and>
          (\<exists>rest. flashes (snd (edit_product tofloat toint i POST f s)) =
             map danger (validation tofloat toint (strip (form_product_name f))
                           (strip (form_category f)) (form_price f) (form_quantity f)) @ rest)) \<and>
   (tofloat ''-1'' = Some (Finite (- 1)) \<and> toint ''abc'' = None
      \<longrightarrow> add_product tofloat toint now POST
            \<lparr>form_product_name = ''Bandage'', form_category = '''', form_price = ''-1'',
             form_quantity = ''abc''\<rparr> s =
          (s, \<lparr>flashes = [danger ''Category is required.'', danger ''Price cannot be negative.'',
                          danger ''Please enter a valid quantity.''],
               page = Add_product_page\<rparr>))"
proof -
  have "tofloat ''-1'' = Some (Finite (- 1)) \<and> toint ''abc'' = None
      \<longrightarrow> add_product tofloat toint now POST
            \<lparr>form_product_name = ''Bandage'', form_category = '''', form_price = ''-1'',
             form_quantity = ''abc''\<rparr> s =
          (s, \<lparr>flashes = [danger ''Category is required.'', danger ''Price cannot be negative.'',
                          danger ''Please enter a valid quantity.''],
               page = Add_product_page\<rparr>)"
    by (simp add: add_product_def validation_def strip_def isspace_def)
  then show ?thesis
    using validation_messages(1,2,3,5,6)[of tofloat toint name cat pr qty]
      validation_price_message[of tofloat toint name cat pr qty]
      add_product_invalid[of tofloat toint f now s]
      edit_product_invalid[of tofloat toint f i s]
    by blast
qed

text \<open>
  An instance: three violations of another submission, and the scenario of the claim
  through both handlers on the empty store (edit_product adds the message of the
  exception that the missing row raises).
\<close>

theorem validation_reports_every_violation_witness:
  "validation float_examples int_examples (strip '' '') (strip ''Pharmacy'') ''x'' ''-1'' =
     [''Product name is required.'', ''Please enter a valid price.'',
      ''Quantity cannot be negative.''] \<and>
   float_examples ''-1'' = Some (Finite (- 1)) \<and> int_examples ''abc'' = None \<and>
   add_product float_examples int_examples 100 POST
       \<lparr>form_product_name = ''Bandage'', form_category = '''', form_price = ''-1'',
        form_quantity = ''abc''\<rparr> empty_db =
     (empty_db,
      \<lparr>flashes = [danger ''Category is required.'', danger ''Price cannot be negative.'',
                  danger ''Please enter a valid quantity.''],
       page = Add_product_page\<rparr>) \<and>
   edit_product float_examples int_examples 1 POST
       \<lparr>form_product_name = ''Bandage'', form_category = '''', form_price = ''-1'',
        form_quantity = ''abc''\<rparr> empty_db =
     (empty_db,
      \<lparr>flashes = [danger ''Category is required.'', danger ''Price cannot be negative.'',
                  danger ''Please enter a valid quantity.'', error_occurred none_not_iterable],
       page = Redirect ''dashboard''\<rparr>)"
proof -
  let ?f = "\<lparr>form_product_name = ''Bandage'', form_category = '''', form_price = ''-1'',
             form_quantity = ''abc''\<rparr>"
  have conv: "float_examples ''-1'' = Some (Finite (- 1)) \<and> int_examples ''abc'' = None"
    by (simp add: float_examples_def int_examples_def)
  note inst = validation_reports_every_violation[of float_examples int_examples
      "strip '' ''" "strip ''Pharmacy''" "''x''" "''-1''" ?f 100 empty_db 1]
  have scenario: "add_product float_examples int_examples 100 POST ?f empty_db =
     (empty_db,
      \<lparr>flashes = [danger ''Category is required.'', danger ''Price cannot be negative.'',
                  danger ''Please enter a valid quantity.''],
       page = Add_product_page\<rparr>)"
    using inst conv by blast
  have "validation float_examples int_examples (strip '' '') (strip ''Pharmacy'') ''x'' ''-1'' =
     [''Product name is required.'', ''Please enter a valid price.'',
      ''Quantity cannot be negative.'']"
    by (simp add: handler_defs)
  moreover have "edit_product float_examples int_examples 1 POST ?f empty_db =
     (empty_db,
      \<lparr>flashes = [danger ''Category is required.'', danger ''Price cannot be negative.'',
                  danger ''Please enter a valid quantity.'', error_occurred none_not_iterable],
       page = Redirect ''dashboard''\<rparr>)"
    by (simp add: handler_defs)
  ultimately show ?thesis using scenario conv by simp
qed

subsection \<open>C4: failed logins cannot be told apart\<close>

text \<open>
  Claim C4: take a login attempt whose user name is not in the credential store and one
  whose user name is there but whose password fails the hash comparison (both reach the
  lookup: a trimmed user name and a password that are not empty). The handler answers
  both in the same way: the same session, the same flashed message, the same page. A
  successful attempt puts the id and the user name of the row into the session and
  greets with the user name; the stored hash is no part of the answer. (The response is
  what the model compares; the time an attempt takes is outside of it.)
\<close>

theorem login_failures_indistinguishable:
  assumes "session_user_id sess = None"
    and "strip u1 \<noteq> []" and "p1 \<noteq> []" and "select_user (strip u1) s = None"
    and "strip u2 \<noteq> []" and "p2 \<noteq> []" and "select_user (strip u2) s = Some usr"
    and "\<not> chk (password usr) p2"
  shows "login chk POST u1 p1 sess s = login chk POST u2 p2 sess s \<and>
     login chk POST u1 p1 sess s =
       (sess, \<lparr>flashes = [danger ''Invalid username or password.''], page = Login_page\<rparr>) \<and>
     (strip u3 \<noteq> [] \<and> p3 \<noteq> [] \<and> select_user (strip u3) s = Some usr3 \<and>
      chk (password usr3) p3
        \<longrightarrow> username usr3 = strip u3 \<and>
            login chk POST u3 p3 sess s =
              (sess\<lparr>permanent := True, session_user_id := Some (uid usr3),
                     session_username := Some (username usr3)\<rparr>,
               \<lparr>flashes = [success (''Welcome back, '' @ username usr3 @ ''!'')],
                page = Redirect ''dashboard''\<rparr>))"
proof -
  have a: "login chk POST u1 p1 sess s = invalid_login sess"
    using assms by (intro login_invalid) simp_all
  have b: "login chk POST u2 p2 sess s = invalid_login sess"
    using assms by (intro login_invalid) simp_all
  have c: "username usr3 = strip u3 \<and>
      login chk POST u3 p3 sess s =
        (sess\<lparr>permanent := True, session_user_id := Some (uid usr3),
               session_username := Some (username usr3)\<rparr>,
         \<lparr>flashes = [success (''Welcome back, '' @ username usr3 @ ''!'')],
          page = Redirect ''dashboard''\<rparr>)"
    if "strip u3 \<noteq> []" "p3 \<noteq> []" "select_user (strip u3) s = Some usr3"
      "chk (password usr3) p3"
    using login_success[of sess u3 p3 s usr3 chk] assms(1) that
      select_user_username[of "strip u3" s usr3] by simp
  show ?thesis using a b c by (simp add: invalid_login_def)
qed

text \<open>
  An instance, on the store right after initialisation: an unknown user, the admin with
  a wrong password, and the admin with the right one.
\<close>

theorem login_failures_indistinguishable_witness:
  "login check_examples POST ''nosuchuser'' ''x''
       \<lparr>permanent = False, session_user_id = None, session_username = None\<rparr>
       (init_db ''hash$admin123'' empty_db) =
     login check_examples POST ''admin'' ''wrongpass''
       \<lparr>permanent = False, session_user_id = None, session_username = None\<rparr>
       (init_db ''hash$admin123'' empty_db) \<and>
   login check_examples POST ''nosuchuser'' ''x''
       \<lparr>permanent = False, session_user_id = None, session_username = None\<rparr>
       (init_db ''hash$admin123'' empty_db) =
     (\<lparr>permanent = False, session_user_id = None, session_username = None\<rparr>,
      \<lparr>flashes = [danger ''Invalid username or password.''], page = Login_page\<rparr>) \<and>
   login check_examples POST ''admin'' ''admin123''
       \<lparr>permanent = False, session_user_id = None, session_username = None\<rparr>
       (init_db ''hash$admin123'' empty_db) =
     (\<lparr>permanent = True, session_user_id = Some 1, session_username = Some ''admin''\<rparr>,
      \<lparr>flashes = [success ''Welcome back, admin!''], page = Redirect ''dashboard''\<rparr>)"
proof -
  let ?sess = "\<lparr>permanent = False, session_user_id = None, session_username = None\<rparr>"
  let ?s = "init_db ''hash$admin123'' empty_db"
  let ?admin = "\<lparr>uid = 1, username = ''admin'', password = ''hash$admin123''\<rparr>"
  have users: "users ?s = [?admin]"
    by (simp add: init_db_def select_user_def insert_user_def max_rowid_def empty_db_def)
  have strips: "strip ''nosuchuser'' = ''nosuchuser''" "strip ''admin'' = ''admin''"
    by (simp_all add: strip_def isspace_def)
  have h1: "session_user_id ?sess = None" by simp
  have h2: "strip ''nosuchuser'' \<noteq> []" "strip ''admin'' \<noteq> []"
    by (simp_all add: strips)
  have h3: "''x'' \<noteq> []" "''wrongpass'' \<noteq> []" "''admin123'' \<noteq> []" by simp_all
  have h4: "select_user (strip ''nosuchuser'') ?s = None"
    "select_user (strip ''admin'') ?s = Some ?admin"
    using users by (simp_all add: select_user_def strips)
  have h5: "\<not> check_examples (password ?admin) ''wrongpass''"
    "check_examples (password ?admin) ''admin123''"
    by (simp_all add: check_examples_def)
  note inst = login_failures_indistinguishable[of ?sess "''nosuchuser''" "''x''" ?s "''admin''"
      "''wrongpass''" ?admin check_examples "''admin''" "''admin123''" ?admin,
      OF h1 h2(1) h3(1) h4(1) h2(2) h3(2) h4(2) h5(1)]
  have "login check_examples POST ''admin'' ''admin123'' ?sess ?s =
      (?sess\<lparr>permanent := True, session_user_id := Some (uid ?admin),
              session_username := Some (username ?admin)\<rparr>,
       \<lparr>flashes = [success (''Welcome back, '' @ username ?admin @ ''!'')],
        page = Redirect ''dashboard''\<rparr>)"
    using inst h2(2) h3(3) h4(2) h5(2) by blast
  then have "login check_examples POST ''admin'' ''admin123'' ?sess ?s =
     (\<lparr>permanent = True, session_user_id = Some 1, session_username = Some ''admin''\<rparr>,
      \<lparr>flashes = [success ''Welcome back, admin!''], page = Redirect ''dashboard''\<rparr>)"
    by simp
  then show ?thesis using inst by blast
qed

subsection \<open>C5: the statistics of the dashboard\<close>

text \<open>
  The claim as it is written, for every state of the store, fails where the quantities
  add up to more than the largest 64-bit integer: \<^verbatim>\<open>SUM(quantity)\<close> raises "integer
  overflow", and the handler renders the dashboard with the message of the exception,
  no product and no statistics. Two inserts of the quantity 4611686018427387904 each
  lead from the empty store to such a state.
\<close>

theorem dashboard_stats_overflow:
  "products (run float_examples int_examples
      [Add 100 \<lparr>form_product_name = ''Nails'', form_category = ''Hardware'',
                form_price = ''5'', form_quantity = ''4611686018427387904''\<rparr>,
       Add 101 \<lparr>form_product_name = ''Screws'', form_category = ''Hardware'',
                form_price = ''5'', form_quantity = ''4611686018427387904''\<rparr>]
      empty_db) =
     [\<lparr>pid = 1, product_name = ''Nails'', category = ''Hardware'', price = Finite 5,
       quantity = 4611686018427387904, created_at = 100\<rparr>,
      \<lparr>pid = 2, product_name = ''Screws'', category = ''Hardware'', price = Finite 5,
       quantity = 4611686018427387904, created_at = 101\<rparr>] \<and>
   dashboard (run float_examples int_examples
      [Add 100 \<lparr>form_product_name = ''Nails'', form_category = ''Hardware'',
                form_price = ''5'', form_quantity = ''4611686018427387904''\<rparr>,
       Add 101 \<lparr>form_product_name = ''Screws'', form_category = ''Hardware'',
                form_price = ''5'', form_quantity = ''4611686018427387904''\<rparr>]
      empty_db) =
     \<lparr>flashes = [(''An error occurred: integer overflow'', ''danger'')],
      page = Dashboard_page [] None None\<rparr>"
  by (simp add: handler_defs Let_def dashboard_def sql_sum_def sum_overflow_def
      error_occurred_def danger_def)

text \<open>
  Claim C5, amended: for every state of the store whose rows have quantities of at least
  zero that add up to at most 9223372036854775807, the dashboard shows total_products
  equal to the number of rows, total_stock equal to the sum of the quantities (0 when
  there is no product) and low_stock_count equal to the number of rows whose quantity
  is below 10; it lists the products newest first, each with the flag is_low_stock
  equal to (quantity < 10), computed when the page is built.
\<close>

theorem dashboard_stats:
  assumes "\<forall>p \<in> set (products s). 0 \<le> quantity p"
    and "sum_list (map quantity (products s)) \<le> INT64_MAX"
  shows "dashboard s =
     \<lparr>flashes = [],
      page = Dashboard_page (map mark_low_stock (select_products_newest_first s))
        (Some \<lparr>total_products = int (length (products s)),
               total_stock = sum_list (map quantity (products s)),
               low_stock_count = int (length (filter (\<lambda>p. quantity p < 10) (products s)))\<rparr>)
        (Some 10)\<rparr> \<and>
     item (mark_low_stock p) = p \<and> is_low_stock (mark_low_stock p) = (quantity p < 10)"
proof -
  have "\<forall>x \<in> set (map quantity (products s)). 0 \<le> x" using assms(1) by simp
  then have "sql_sum (map quantity (products s)) =
      Inr (if map quantity (products s) = [] then None
           else Some (sum_list (map quantity (products s))))"
    using assms(2) by (rule sql_sum_nonneg)
  then show ?thesis
    by (simp add: dashboard_def Let_def coalesce0_def LOW_STOCK_THRESHOLD_def mark_low_stock_def)
qed

text \<open>
  An instance: after the inserts of (Aspirin, Pharmacy, 4.5, 5) and (Gauze, Pharmacy, 5,
  50), two products, 55 in stock, one of them low.
\<close>

theorem dashboard_stats_witness:
  "dashboard (run float_examples int_examples
      [Add 100 \<lparr>form_product_name = ''Aspirin'', form_category = ''Pharmacy'',
                form_price = ''4.5'', form_quantity = ''5''\<rparr>,
       Add 200 \<lparr>form_product_name = ''Gauze'', form_category = ''Pharmacy'',
                form_price = ''5'', form_quantity = ''50''\<rparr>]
      empty_db) =
     \<lparr>flashes = [],
      page = Dashboard_page
        [\<lparr>item = \<lparr>pid = 2, product_name = ''Gauze'', category = ''Pharmacy'',
                  price = Finite 5, quantity = 50, created_at = 200\<rparr>,
          is_low_stock = False\<rparr>,
         \<lparr>item = \<lparr>pid = 1, product_name = ''Aspirin'', category = ''Pharmacy'',
                  price = Finite (9 / 2), quantity = 5, created_at = 100\<rparr>,
          is_low_stock = True\<rparr>]
        (Some \<lparr>total_products = 2, total_stock = 55, low_stock_count = 1\<rparr>)
        (Some 10)\<rparr>"
proof -
  let ?a = "\<lparr>pid = 1, product_name = ''Aspirin'', category = ''Pharmacy'',
                  price = Finite (9 / 2), quantity = 5, created_at = 100\<rparr>"
  let ?g = "\<lparr>pid = 2, product_name = ''Gauze'', category = ''Pharmacy'',
                  price = Finite 5, quantity = 50, created_at = 200\<rparr>"
  define s where "s = run float_examples int_examples
      [Add 100 \<lparr>form_product_name = ''Aspirin'', form_category = ''Pharmacy'',
                form_price = ''4.5'', form_quantity = ''5''\<rparr>,
       Add 200 \<lparr>form_product_name = ''Gauze'', form_category = ''Pharmacy'',
                form_price = ''5'', form_quantity = ''50''\<rparr>]
      empty_db"
  have rows: "products s = [?a, ?g]"
    unfolding s_def by (simp add: handler_defs Let_def)
  have h1: "\<forall>p \<in> set (products s). 0 \<le> quantity p"
    by (simp add: rows)
  have h2: "sum_list (map quantity (products s)) \<le> INT64_MAX"
    by (simp add: rows INT64_MAX_def)
  have listing: "select_products_newest_first s = [?g, ?a]"
    by (simp add: select_products_newest_first_def rows)
  have "dashboard s =
     \<lparr>flashes = [],
      page = Dashboard_page (map mark_low_stock (select_products_newest_first s))
        (Some \<lparr>total_products = int (length (products s)),
               total_stock = sum_list (map quantity (products s)),
               low_stock_count = int (length (filter (\<lambda>p. quantity p < 10) (products s)))\<rparr>)
        (Some 10)\<rparr>"
    using dashboard_stats[OF h1 h2, of ?a] by blast
  then have "dashboard s =
     \<lparr>flashes = [],
      page = Dashboard_page [\<lparr>item = ?g, is_low_stock = False\<rparr>, \<lparr>item = ?a, is_low_stock = True\<rparr>]
        (Some \<lparr>total_products = 2, total_stock = 55, low_stock_count = 1\<rparr>)
        (Some 10)\<rparr>"
    by (simp add: rows listing mark_low_stock_def LOW_STOCK_THRESHOLD_def)
  then show ?thesis unfolding s_def .
qed

subsection \<open>C6: the default administrator is created at most once\<close>

text \<open>
  Claim C6: on every credential store whose user names are pairwise different (the
  \<^verbatim>\<open>UNIQUE\<close> constraint of the column), init_db inserts a row named admin with the given
  hash when no row of that name exists, and changes nothing when one exists, whatever
  its hash. Running it again any number of times, with whatever new hashes, changes
  nothing more, and the store then holds exactly one row named admin. create_admin has
  the same effect on the store.
\<close>

theorem init_db_idempotent:
  assumes "distinct (map username (users s))"
  shows "length (filter (\<lambda>u. username u = ''admin'') (users (fold init_db hs (init_db h s)))) = 1 \<and>
     fold init_db hs (init_db h s) = init_db h s \<and>
     (select_user ''admin'' s = Some a \<longrightarrow> init_db h s = s) \<and>
     (select_user ''admin'' s = None \<longrightarrow>
        users (init_db h s) =
          users s @ [\<lparr>uid = 1 + max_rowid 0 (map uid (users s)), username = ''admin'',
                      password = h\<rparr>]) \<and>
     fst (create_admin h s) = init_db h s"
proof -
  have fixed: "fold init_db hs (init_db h s) = init_db h s"
    using init_db_has_admin by (rule fold_init_db_fixed)
  have "length (filter (\<lambda>u. username u = ''admin'') (users (init_db h s))) = 1"
    using init_db_distinct[OF assms] init_db_has_admin by (rule one_admin)
  moreover have "select_user ''admin'' s = Some a \<longrightarrow> init_db h s = s"
    by (simp add: init_db_def)
  moreover have "select_user ''admin'' s = None \<longrightarrow>
        users (init_db h s) =
          users s @ [\<lparr>uid = 1 + max_rowid 0 (map uid (users s)), username = ''admin'',
                      password = h\<rparr>]"
    by (simp add: init_db_def insert_user_def)
  moreover have "fst (create_admin h s) = init_db h s"
    by (simp add: create_admin_def init_db_def split: option.splits)
  ultimately show ?thesis using fixed by simp
qed

text \<open>
  An instance: three runs from the empty store leave the row of the first run; an
  existing admin row with another hash is kept; create_admin after init_db reports the
  existing row.
\<close>

theorem init_db_idempotent_witness:
  "users (fold init_db [''hash$two'', ''hash$three''] (init_db ''hash$one'' empty_db)) =
     [\<lparr>uid = 1, username = ''admin'', password = ''hash$one''\<rparr>] \<and>
   users (init_db ''hash$new''
       (empty_db\<lparr>users := [\<lparr>uid = 1, username = ''alice'', password = ''hash$a''\<rparr>,
                            \<lparr>uid = 4, username = ''admin'', password = ''hash$changed''\<rparr>]\<rparr>)) =
     [\<lparr>uid = 1, username = ''alice'', password = ''hash$a''\<rparr>,
      \<lparr>uid = 4, username = ''admin'', password = ''hash$changed''\<rparr>] \<and>
   create_admin ''hash$two'' (init_db ''hash$one'' empty_db) =
     (init_db ''hash$one'' empty_db,
      ''Admin user already exists. Login with username: admin, password: admin123'')"
proof -
  let ?t = "empty_db\<lparr>users := [\<lparr>uid = 1, username = ''alice'', password = ''hash$a''\<rparr>,
                            \<lparr>uid = 4, username = ''admin'', password = ''hash$changed''\<rparr>]\<rparr>"
  have d0: "distinct (map username (users empty_db))" by (simp add: empty_db_def)
  have d1: "distinct (map username (users ?t))" by simp
  have none: "select_user ''admin'' empty_db = None"
    by (simp add: select_user_def empty_db_def)
  have some: "select_user ''admin'' ?t =
      Some \<lparr>uid = 4, username = ''admin'', password = ''hash$changed''\<rparr>"
    by (simp add: select_user_def)
  note i0 = init_db_idempotent[OF d0, of "[''hash$two'', ''hash$three'']" "''hash$one''"]
  note i1 = init_db_idempotent[OF d1, of "[]" "''hash$new''"
      "\<lparr>uid = 4, username = ''admin'', password = ''hash$changed''\<rparr>"]
  have a: "users (fold init_db [''hash$two'', ''hash$three''] (init_db ''hash$one'' empty_db)) =
     [\<lparr>uid = 1, username = ''admin'', password = ''hash$one''\<rparr>]"
    using i0 none by (simp add: empty_db_def max_rowid_def)
  have b: "init_db ''hash$new'' ?t = ?t" using i1 some by blast
  have c: "create_admin ''hash$two'' (init_db ''hash$one'' empty_db) =
     (init_db ''hash$one'' empty_db,
      ''Admin user already exists. Login with username: admin, password: admin123'')"
    by (simp add: create_admin_def init_db_def select_user_def insert_user_def empty_db_def
        max_rowid_def)
  show ?thesis using a c by (simp add: b)
qed

subsection \<open>C7: a product can be read back after its insert\<close>

text \<open>
  The claim as it is written fails on two inputs that pass the validation. The quantity
  9223372036854775808 is not a 64-bit integer: binding it raises \<^verbatim>\<open>OverflowError\<close>, and
  no row is written. The name " Aspirin " is stored trimmed, so the product read back
  has the name "Aspirin", not the text that was submitted.
\<close>

theorem insert_then_get_counterexample:
  "validation float_examples int_examples (strip ''Nails'') (strip ''Hardware'') ''5''
       ''9223372036854775808'' = [] \<and>
   add_product float_examples int_examples 100 POST
       \<lparr>form_product_name = ''Nails'', form_category = ''Hardware'', form_price = ''5'',
        form_quantity = ''9223372036854775808''\<rparr> empty_db =
     (empty_db,
      \<lparr>flashes =
         [(''An error occurred: Python int too large to convert to SQLite INTEGER'',
           ''danger'')],
       page = Add_product_page\<rparr>) \<and>
   edit_product float_examples int_examples 1 GET
       \<lparr>form_product_name = [], form_category = [], form_price = [], form_quantity = []\<rparr>
       (fst (add_product float_examples int_examples 100 POST
               \<lparr>form_product_name = '' Aspirin '', form_category = ''Pharmacy'',
                form_price = ''4.5'', form_quantity = ''5''\<rparr> empty_db)) =
     (\<lparr>users = [],
       products = [\<lparr>pid = 1, product_name = ''Aspirin'', category = ''Pharmacy'',
                    price = Finite (9 / 2), quantity = 5, created_at = 100\<rparr>],
       products_seq = 1\<rparr>,
      \<lparr>flashes = [],
       page = Edit_product_page
         \<lparr>pid = 1, product_name = ''Aspirin'', category = ''Pharmacy'',
          price = Finite (9 / 2), quantity = 5, created_at = 100\<rparr>\<rparr>) \<and>
   ''Aspirin'' \<noteq> '' Aspirin ''"
  by (simp add: handler_defs Let_def error_occurred_def danger_def int_too_large_def)

text \<open>
  Claim C7, amended: take a submission whose name and category are not empty after
  trimming, whose price is converted to a float that is at least zero and whose
  quantity is converted to an integer from 0 to 9223372036854775807, on a store whose
  row id counter is at least zero and below 9223372036854775807. Then add_product
  succeeds, and reading the new id back (the \<^verbatim>\<open>GET\<close> branch of edit_product) returns the
  product with the trimmed name, the trimmed category, the converted price and quantity,
  and the time stamp that the store assigned during the insert.
\<close>

theorem insert_then_get:
  assumes "strip (form_product_name f) \<noteq> []" and "strip (form_category f) \<noteq> []"
    and "tofloat (form_price f) = Some x" and "float_ge_zero x"
    and "toint (form_quantity f) = Some n" and "0 \<le> n" and "n \<le> INT64_MAX"
    and "0 \<le> products_seq s"
    and "max_rowid (products_seq s) (map pid (products s)) < INT64_MAX"
  shows "add_product tofloat toint now POST f s =
     (s\<lparr>products := products s @
          [\<lparr>pid = max_rowid (products_seq s) (map pid (products s)) + 1,
            product_name = strip (form_product_name f), category = strip (form_category f),
            price = x, quantity = n, created_at = now\<rparr>],
        products_seq := max_rowid (products_seq s) (map pid (products s)) + 1\<rparr>,
      \<lparr>flashes = [success (''Product \"'' @ strip (form_product_name f) @
                            ''\" added successfully!'')],
       page = Redirect ''dashboard''\<rparr>) \<and>
     edit_product tofloat' toint' (max_rowid (products_seq s) (map pid (products s)) + 1) GET g
         (fst (add_product tofloat toint now POST f s)) =
       (fst (add_product tofloat toint now POST f s),
        \<lparr>flashes = [],
         page = Edit_product_page
           \<lparr>pid = max_rowid (products_seq s) (map pid (products s)) + 1,
            product_name = strip (form_product_name f), category = strip (form_category f),
            price = x, quantity = n, created_at = now\<rparr>\<rparr>)"
proof -
  define newid where "newid = max_rowid (products_seq s) (map pid (products s)) + 1"
  define row where "row = \<lparr>pid = newid, product_name = strip (form_product_name f),
      category = strip (form_category f), price = x, quantity = n, created_at = now\<rparr>"
  have valid: "validation tofloat toint (strip (form_product_name f)) (strip (form_category f))
      (form_price f) (form_quantity f) = []"
    using assms by (simp add: validation_Nil_iff float_ge_zero_iff)
  have qty: "int64 n" using assms(6,7) by (simp add: int64_def INT64_MAX_def)
  have nan: "\<not> isnan x" using assms(4) by (simp add: float_ge_zero_iff)
  have ins: "insert_product now (strip (form_product_name f)) (strip (form_category f)) x n s =
      Inr (s\<lparr>products := products s @ [row], products_seq := newid\<rparr>)"
    using qty nan assms(9) by (simp add: insert_product_def Let_def row_def newid_def)
  have add: "add_product tofloat toint now POST f s =
     (s\<lparr>products := products s @ [row], products_seq := newid\<rparr>,
      \<lparr>flashes = [success (''Product \"'' @ strip (form_product_name f) @
                            ''\" added successfully!'')],
       page = Redirect ''dashboard''\<rparr>)"
    using valid ins assms(3,5) by (simp add: add_product_def Let_def)
  have "products_seq s \<le> max_rowid (products_seq s) (map pid (products s))"
    unfolding max_rowid_def by (rule le_fold_max)
  then have id64: "int64 newid"
    using assms(8,9) by (simp add: int64_def newid_def INT64_MAX_def)
  have "\<forall>p \<in> set (products s). \<not> pid p = newid"
    using pid_below_next[of _ s] by (auto simp: newid_def)
  then have "find (\<lambda>p. pid p = newid) (products s @ [row]) = Some row"
    by (rule find_append_new) (simp add: row_def)
  then have get: "edit_product tofloat' toint' newid GET g
         (s\<lparr>products := products s @ [row], products_seq := newid\<rparr>) =
       (s\<lparr>products := products s @ [row], products_seq := newid\<rparr>,
        \<lparr>flashes = [], page = Edit_product_page row\<rparr>)"
    using id64 by (simp add: edit_product_def select_product_def)
  show ?thesis using add get unfolding row_def newid_def by simp
qed

text \<open>
  An instance: the insert of (" Aspirin ", Pharmacy, 4.5, 5) into the empty store at
  the time 100.
\<close>

theorem insert_then_get_witness:
  "add_product float_examples int_examples 100 POST
       \<lparr>form_product_name = '' Aspirin '', form_category = ''Pharmacy'',
        form_price = ''4.5'', form_quantity = ''5''\<rparr> empty_db =
     (\<lparr>users = [],
       products = [\<lparr>pid = 1, product_name = ''Aspirin'', category = ''Pharmacy'',
                    price = Finite (9 / 2), quantity = 5, created_at = 100\<rparr>],
       products_seq = 1\<rparr>,
      \<lparr>flashes = [success ''Product \"Aspirin\" added successfully!''],
       page = Redirect ''dashboard''\<rparr>) \<and>
   edit_product float_examples int_examples 1 GET
       \<lparr>form_product_name = [], form_category = [], form_price = [], form_quantity = []\<rparr>
       \<lparr>users = [],
        products = [\<lparr>pid = 1, product_name = ''Aspirin'', category = ''Pharmacy'',
                     price = Finite (9 / 2), quantity = 5, created_at = 100\<rparr>],
        products_seq = 1\<rparr> =
     (\<lparr>users = [],
       products = [\<lparr>pid = 1, product_name = ''Aspirin'', category = ''Pharmacy'',
                    price = Finite (9 / 2), quantity = 5, created_at = 100\<rparr>],
       products_seq = 1\<rparr>,
      \<lparr>flashes = [],
       page = Edit_product_page
         \<lparr>pid = 1, product_name = ''Aspirin'', category = ''Pharmacy'',
          price = Finite (9 / 2), quantity = 5, created_at = 100\<rparr>\<rparr>)"
proof -
  let ?f = "\<lparr>form_product_name = '' Aspirin '', form_category = ''Pharmacy'',
             form_price = ''4.5'', form_quantity = ''5''\<rparr>"
  let ?e = "\<lparr>form_product_name = [], form_category = [], form_price = [],
             form_quantity = []\<rparr>"
  have h1: "strip (form_product_name ?f) \<noteq> []" by (simp add: strip_def isspace_def)
  have h2: "strip (form_category ?f) \<noteq> []" by (simp add: strip_def isspace_def)
  have h3: "float_examples (form_price ?f) = Some (Finite (9 / 2))"
    by (simp add: float_examples_def)
  have h4: "float_ge_zero (Finite (9 / 2))" by simp
  have h5: "int_examples (form_quantity ?f) = Some 5" by (simp add: int_examples_def)
  have h6: "(0::int) \<le> 5" by simp
  have h7: "5 \<le> INT64_MAX" by (simp add: INT64_MAX_def)
  have h8: "0 \<le> products_seq empty_db" by (simp add: empty_db_def)
  have h9: "max_rowid (products_seq empty_db) (map pid (products empty_db)) < INT64_MAX"
    by (simp add: empty_db_def max_rowid_def INT64_MAX_def)
  note inst = insert_then_get[of ?f float_examples "Finite (9 / 2)" int_examples 5 empty_db
      100 float_examples int_examples ?e, OF h1 h2 h3 h4 h5 h6 h7 h8 h9]
  have norm: "strip '' Aspirin '' = ''Aspirin''" "strip ''Pharmacy'' = ''Pharmacy''"
    "max_rowid (products_seq empty_db) (map pid (products empty_db)) + 1 = 1"
    by (simp_all add: strip_def isspace_def empty_db_def max_rowid_def)
  have add: "add_product float_examples int_examples 100 POST ?f empty_db =
     (\<lparr>users = [],
       products = [\<lparr>pid = 1, product_name = ''Aspirin'', category = ''Pharmacy'',
                    price = Finite (9 / 2), quantity = 5, created_at = 100\<rparr>],
       products_seq = 1\<rparr>,
      \<lparr>flashes = [success ''Product \"Aspirin\" added successfully!''],
       page = Redirect ''dashboard''\<rparr>)"
    using inst[THEN conjunct1] by (simp add: norm empty_db_def max_rowid_def)
  show ?thesis
    using inst[THEN conjunct2] add by (simp add: norm empty_db_def max_rowid_def)
qed

subsection \<open>C8: deleting a product\<close>

text \<open>
  The claim as it is written, for every product id, fails for an id that is not a 64-bit
  integer: the route accepts 9223372036854775808, binding it to the lookup raises
  \<^verbatim>\<open>OverflowError\<close>, and delete_product flashes the message of the exception instead of
  "Product not found.".
\<close>

theorem delete_then_get_counterexample:
  "find (\<lambda>p. pid p = 9223372036854775808) (products empty_db) = None \<and>
   delete_product 9223372036854775808 empty_db =
     (empty_db,
      \<lparr>flashes =
         [(''An error occurred: Python int too large to convert to SQLite INTEGER'',
           ''danger'')],
       page = Redirect ''dashboard''\<rparr>)"
  by (simp add: handler_defs error_occurred_def danger_def int_too_large_def)

text \<open>
  Claim C8, amended: for every product id that is a 64-bit integer: when a row with
  that id exists, delete_product removes the rows with that id, keeps every other row,
  and reports the name of the deleted product; under the primary key (no two rows
  share an id) exactly that one row is removed. When no such row exists, it flashes
  "Product not found." and leaves the store unchanged. In both cases, reading the id
  afterwards (the \<^verbatim>\<open>GET\<close> branch of edit_product) answers "Product not found.".
\<close>

theorem delete_then_get:
  assumes "int64 i"
  shows "(find (\<lambda>p. pid p = i) (products s) = Some p \<longrightarrow>
       delete_product i s =
         (s\<lparr>products := filter (\<lambda>q. pid q \<noteq> i) (products s)\<rparr>,
          \<lparr>flashes = [success (''Product \"'' @ product_name p @ ''\" deleted successfully!'')],
           page = Redirect ''dashboard''\<rparr>) \<and>
       (distinct (map pid (products s)) \<longrightarrow>
          mset (products s) = add_mset p (mset (filter (\<lambda>q. pid q \<noteq> i) (products s))))) \<and>
     (find (\<lambda>p. pid p = i) (products s) = None \<longrightarrow>
       delete_product i s =
         (s, \<lparr>flashes = [danger ''Product not found.''], page = Redirect ''dashboard''\<rparr>)) \<and>
     edit_product tofloat toint i GET f (fst (delete_product i s)) =
       (fst (delete_product i s),
        \<lparr>flashes = [danger ''Product not found.''], page = Redirect ''dashboard''\<rparr>)"
proof -
  have a: "delete_product i s =
         (s\<lparr>products := filter (\<lambda>q. pid q \<noteq> i) (products s)\<rparr>,
          \<lparr>flashes = [success (''Product \"'' @ product_name p @ ''\" deleted successfully!'')],
           page = Redirect ''dashboard''\<rparr>)"
    if "find (\<lambda>p. pid p = i) (products s) = Some p"
    using that assms by (simp add: delete_product_def select_product_def delete_row_def)
  have b: "delete_product i s =
         (s, \<lparr>flashes = [danger ''Product not found.''], page = Redirect ''dashboard''\<rparr>)"
    if "find (\<lambda>p. pid p = i) (products s) = None"
    using that assms by (simp add: delete_product_def select_product_def)
  show ?thesis
    using a b delete_exactly_one[of s i p] get_after_delete[OF assms, of tofloat toint f s]
    by blast
qed

text \<open>
  An instance: deleting product 1 of two stored products, deleting from the empty store,
  and reading product 1 after the delete.
\<close>

theorem delete_then_get_witness:
  "delete_product 1
       (run float_examples int_examples
          [Add 100 \<lparr>form_product_name = ''Aspirin'', form_category = ''Pharmacy'',
                    form_price = ''4.5'', form_quantity = ''5''\<rparr>,
           Add 200 \<lparr>form_product_name = ''Gauze'', form_category = ''Pharmacy'',
                    form_price = ''5'', form_quantity = ''50''\<rparr>]
          empty_db) =
     (\<lparr>users = [],
       products = [\<lparr>pid = 2, product_name = ''Gauze'', category = ''Pharmacy'',
                    price = Finite 5, quantity = 50, created_at = 200\<rparr>],
       products_seq = 2\<rparr>,
      \<lparr>flashes = [success ''Product \"Aspirin\" deleted successfully!''],
       page = Redirect ''dashboard''\<rparr>) \<and>
   delete_product 1 empty_db =
     (empty_db, \<lparr>flashes = [danger ''Product not found.''], page = Redirect ''dashboard''\<rparr>) \<and>
   edit_product float_examples int_examples 1 GET
       \<lparr>form_product_name = [], form_category = [], form_price = [], form_quantity = []\<rparr>
       \<lparr>users = [],
        products = [\<lparr>pid = 2, product_name = ''Gauze'', category = ''Pharmacy'',
                     price = Finite 5, quantity = 50, created_at = 200\<rparr>],
        products_seq = 2\<rparr> =
     (\<lparr>users = [],
       products = [\<lparr>pid = 2, product_name = ''Gauze'', category = ''Pharmacy'',
                    price = Finite 5, quantity = 50, created_at = 200\<rparr>],
       products_seq = 2\<rparr>,
      \<lparr>flashes = [danger ''Product not found.''], page = Redirect ''dashboard''\<rparr>)"
proof -
  let ?a = "\<lparr>pid = 1, product_name = ''Aspirin'', category = ''Pharmacy'',
             price = Finite (9 / 2), quantity = 5, created_at = 100\<rparr>"
  let ?g = "\<lparr>pid = 2, product_name = ''Gauze'', category = ''Pharmacy'',
             price = Finite 5, quantity = 50, created_at = 200\<rparr>"
  let ?e = "\<lparr>form_product_name = [], form_category = [], form_price = [],
             form_quantity = []\<rparr>"
  define s where "s = run float_examples int_examples
          [Add 100 \<lparr>form_product_name = ''Aspirin'', form_category = ''Pharmacy'',
                    form_price = ''4.5'', form_quantity = ''5''\<rparr>,
           Add 200 \<lparr>form_product_name = ''Gauze'', form_category = ''Pharmacy'',
                    form_price = ''5'', form_quantity = ''50''\<rparr>]
          empty_db"
  have s: "s = \<lparr>users = [], products = [?a, ?g], products_seq = 2\<rparr>"
    unfolding s_def by (simp add: handler_defs Let_def)
  have i: "int64 1" by (simp add: int64_def INT64_MAX_def)
  have found: "find (\<lambda>p. pid p = 1) (products s) = Some ?a" by (simp add: s)
  have none: "find (\<lambda>p. pid p = 1) (products empty_db) = None" by (simp add: empty_db_def)
  note on_s = delete_then_get[OF i, of s ?a float_examples int_examples ?e]
  note on_empty = delete_then_get[OF i, of empty_db ?a float_examples int_examples ?e]
  have "delete_product 1 s =
         (s\<lparr>products := filter (\<lambda>q. pid q \<noteq> 1) (products s)\<rparr>,
          \<lparr>flashes = [success (''Product \"'' @ product_name ?a @ ''\" deleted successfully!'')],
           page = Redirect ''dashboard''\<rparr>)"
    using on_s found by blast
  then have a: "delete_product 1 s =
     (\<lparr>users = [], products = [?g], products_seq = 2\<rparr>,
      \<lparr>flashes = [success ''Product \"Aspirin\" deleted successfully!''],
       page = Redirect ''dashboard''\<rparr>)"
    by (simp add: s)
  have b: "delete_product 1 empty_db =
     (empty_db, \<lparr>flashes = [danger ''Product not found.''], page = Redirect ''dashboard''\<rparr>)"
    using on_empty none by blast
  have "edit_product float_examples int_examples 1 GET ?e (fst (delete_product 1 s)) =
       (fst (delete_product 1 s),
        \<lparr>flashes = [danger ''Product not found.''], page = Redirect ''dashboard''\<rparr>)"
    using on_s by blast
  then have c: "edit_product float_examples int_examples 1 GET ?e
       \<lparr>users = [], products = [?g], products_seq = 2\<rparr> =
     (\<lparr>users = [], products = [?g], products_seq = 2\<rparr>,
      \<lparr>flashes = [danger ''Product not found.''], page = Redirect ''dashboard''\<rparr>)"
    by (simp add: a)
  show ?thesis using a b c unfolding s_def by blast
qed

subsection \<open>C9: the products are listed newest first\<close>

text \<open>
  Claim C9: for every state of the store, the listing query returns the stored rows,
  each as often as it is stored, ordered by created_at with the newest first; and these
  are the products of the page whenever the dashboard is rendered with its statistics.
  (The rows with equal time stamps come in an order that SQL leaves open. When the
  statistics query that follows the listing raises, the handler drops the list and
  renders the page without products; C5 has such a state.)
\<close>

theorem list_all_newest_first:
  "mset (select_products_newest_first s) = mset (products s) \<and>
   sorted_wrt (\<lambda>p q. created_at q \<le> created_at p) (select_products_newest_first s) \<and>
   (page (dashboard s) = Dashboard_page rows (Some st) t
      \<longrightarrow> map item rows = select_products_newest_first s)"
  by (auto simp: select_products_newest_first_def mset_order_by sorted_order_by dashboard_def
      Let_def item_mark_low_stock split: sum.splits)

text \<open>
  An instance: three products stored at the times 100, 300 and 200.
\<close>

theorem list_all_newest_first_witness:
  "select_products_newest_first
       \<lparr>users = [],
        products =
          [\<lparr>pid = 1, product_name = ''Aspirin'', category = ''Pharmacy'',
            price = Finite (9 / 2), quantity = 5, created_at = 100\<rparr>,
           \<lparr>pid = 2, product_name = ''Gauze'', category = ''Pharmacy'',
            price = Finite 5, quantity = 50, created_at = 300\<rparr>,
           \<lparr>pid = 3, product_name = ''Bandage'', category = ''Pharmacy'',
            price = Finite 5, quantity = 5, created_at = 200\<rparr>],
        products_seq = 3\<rparr> =
     [\<lparr>pid = 2, product_name = ''Gauze'', category = ''Pharmacy'',
       price = Finite 5, quantity = 50, created_at = 300\<rparr>,
      \<lparr>pid = 3, product_name = ''Bandage'', category = ''Pharmacy'',
       price = Finite 5, quantity = 5, created_at = 200\<rparr>,
      \<lparr>pid = 1, product_name = ''Aspirin'', category = ''Pharmacy'',
       price = Finite (9 / 2), quantity = 5, created_at = 100\<rparr>] \<and>
   page (dashboard
       \<lparr>users = [],
        products =
          [\<lparr>pid = 1, product_name = ''Aspirin'', category = ''Pharmacy'',
            price = Finite (9 / 2), quantity = 5, created_at = 100\<rparr>,
           \<lparr>pid = 2, product_name = ''Gauze'', category = ''Pharmacy'',
            price = Finite 5, quantity = 50, created_at = 300\<rparr>,
           \<lparr>pid = 3, product_name = ''Bandage'', category = ''Pharmacy'',
            price = Finite 5, quantity = 5, created_at = 200\<rparr>],
        products_seq = 3\<rparr>) =
     Dashboard_page
       [\<lparr>item = \<lparr>pid = 2, product_name = ''Gauze'', category = ''Pharmacy'',
                 price = Finite 5, quantity = 50, created_at = 300\<rparr>,
         is_low_stock = False\<rparr>,
        \<lparr>item = \<lparr>pid = 3, product_name = ''Bandage'', category = ''Pharmacy'',
                 price = Finite 5, quantity = 5, created_at = 200\<rparr>,
         is_low_stock = True\<rparr>,
        \<lparr>item = \<lparr>pid = 1, product_name = ''Aspirin'', category = ''Pharmacy'',
                 price = Finite (9 / 2), quantity = 5, created_at = 100\<rparr>,
         is_low_stock = True\<rparr>]
       (Some \<lparr>total_products = 3, total_stock = 60, low_stock_count = 2\<rparr>)
       (Some 10)"
proof -
  let ?a = "\<lparr>pid = 1, product_name = ''Aspirin'', category = ''Pharmacy'',
             price = Finite (9 / 2), quantity = 5, created_at = 100\<rparr>"
  let ?g = "\<lparr>pid = 2, product_name = ''Gauze'', category = ''Pharmacy'',
             price = Finite 5, quantity = 50, created_at = 300\<rparr>"
  let ?b = "\<lparr>pid = 3, product_name = ''Bandage'', category = ''Pharmacy'',
             price = Finite 5, quantity = 5, created_at = 200\<rparr>"
  let ?s = "\<lparr>users = [], products = [?a, ?g, ?b], products_seq = 3\<rparr>"
  let ?rows = "[\<lparr>item = ?g, is_low_stock = False\<rparr>, \<lparr>item = ?b, is_low_stock = True\<rparr>,
                \<lparr>item = ?a, is_low_stock = True\<rparr>]"
  let ?st = "\<lparr>total_products = 3, total_stock = 60, low_stock_count = 2\<rparr>"
  have shown: "page (dashboard ?s) = Dashboard_page ?rows (Some ?st) (Some 10)"
    by (simp add: dashboard_def select_products_newest_first_def sql_sum_def int64_def
        INT64_MAX_def coalesce0_def mark_low_stock_def LOW_STOCK_THRESHOLD_def)
  have "map item ?rows = select_products_newest_first ?s"
    using list_all_newest_first[of ?s ?rows ?st "Some 10"] shown by blast
  then have "select_products_newest_first ?s = [?g, ?b, ?a]" by simp
  then show ?thesis using shown by simp
qed

subsection \<open>C10: the user name is trimmed, the password is not\<close>

text \<open>
  Claim C10: login answers a submitted user name as it answers the trimmed one, so the
  lookup is made with the trimmed name. When a row of that name exists, the attempt
  succeeds exactly when \<^verbatim>\<open>check_password_hash\<close> accepts the stored hash with the password
  as it was submitted. When the trimmed user name or the password is empty, the answer
  is the request to enter both, whatever the store holds and whatever the hash
  comparison would say: nothing is looked up.
\<close>

theorem login_trims_username_only:
  "login chk m u p sess s = login chk m (strip u) p sess s \<and>
   (strip u = [] \<or> p = [] \<longrightarrow>
      login chk m u p sess s = login chk' m u p sess s' \<and>
      (session_user_id sess = None \<longrightarrow>
         login chk POST u p sess s =
           (sess, \<lparr>flashes = [danger ''Please enter both username and password.''],
                   page = Login_page\<rparr>))) \<and>
   (session_user_id sess = None \<and> strip u \<noteq> [] \<and> p \<noteq> [] \<and>
    select_user (strip u) s = Some usr \<longrightarrow>
      (session_user_id (fst (login chk POST u p sess s)) = Some (uid usr)
         \<longleftrightarrow> chk (password usr) p) \<and>
      (\<not> chk (password usr) p \<longrightarrow>
         login chk POST u p sess s =
           (sess, \<lparr>flashes = [danger ''Invalid username or password.''], page = Login_page\<rparr>)))"
proof -
  have a: "login chk m u p sess s = login chk m (strip u) p sess s"
    by (rule login_strip)
  have b: "login chk m u p sess s = login chk' m u p sess s'"
    if "strip u = [] \<or> p = []"
    using login_missing_field[OF that, of chk m sess s]
      login_missing_field[OF that, of chk' m sess s'] by simp
  have c: "login chk POST u p sess s =
           (sess, \<lparr>flashes = [danger ''Please enter both username and password.''],
                   page = Login_page\<rparr>)"
    if "strip u = [] \<or> p = []" "session_user_id sess = None"
    using login_missing_field[OF that(1), of chk POST sess s] that(2) by simp
  have d: "(session_user_id (fst (login chk POST u p sess s)) = Some (uid usr)
         \<longleftrightarrow> chk (password usr) p) \<and>
      (\<not> chk (password usr) p \<longrightarrow>
         login chk POST u p sess s =
           (sess, \<lparr>flashes = [danger ''Invalid username or password.''], page = Login_page\<rparr>))"
    if h: "session_user_id sess = None" "strip u \<noteq> []" "p \<noteq> []"
      "select_user (strip u) s = Some usr"
  proof (cases "chk (password usr) p")
    case True
    then show ?thesis using login_success[of sess u p s usr chk] h by simp
  next
    case False
    then have "login chk POST u p sess s = invalid_login sess"
      using h by (intro login_invalid) auto
    then show ?thesis using False h(1) by (simp add: invalid_login_def)
  qed
  show ?thesis using a b c d by blast
qed

text \<open>
  An instance, on the store right after initialisation: the user name " admin " logs in
  as admin, the password " admin123 " is not accepted for the password admin123, and a
  user name of blanks is refused.
\<close>

theorem login_trims_username_only_witness:
  "login check_examples POST '' admin '' ''admin123''
       \<lparr>permanent = False, session_user_id = None, session_username = None\<rparr>
       (init_db ''hash$admin123'' empty_db) =
     (\<lparr>permanent = True, session_user_id = Some 1, session_username = Some ''admin''\<rparr>,
      \<lparr>flashes = [success ''Welcome back, admin!''], page = Redirect ''dashboard''\<rparr>) \<and>
   login check_examples POST ''admin'' '' admin123 ''
       \<lparr>permanent = False, session_user_id = None, session_username = None\<rparr>
       (init_db ''hash$admin123'' empty_db) =
     (\<lparr>permanent = False, session_user_id = None, session_username = None\<rparr>,
      \<lparr>flashes = [danger ''Invalid username or password.''], page = Login_page\<rparr>) \<and>
   login check_examples POST ''   '' ''admin123''
       \<lparr>permanent = False, session_user_id = None, session_username = None\<rparr>
       (init_db ''hash$admin123'' empty_db) =
     (\<lparr>permanent = False, session_user_id = None, session_username = None\<rparr>,
      \<lparr>flashes = [danger ''Please enter both username and password.''], page = Login_page\<rparr>)"
proof -
  let ?sess = "\<lparr>permanent = False, session_user_id = None, session_username = None\<rparr>"
  let ?s = "init_db ''hash$admin123'' empty_db"
  let ?admin = "\<lparr>uid = 1, username = ''admin'', password = ''hash$admin123''\<rparr>"
  have users: "users ?s = [?admin]"
    by (simp add: init_db_def select_user_def insert_user_def max_rowid_def empty_db_def)
  have strips: "strip '' admin '' = ''admin''" "strip ''admin'' = ''admin''"
    "strip ''   '' = []"
    by (simp_all add: strip_def isspace_def)
  have h1: "session_user_id ?sess = None" by simp
  have h2: "strip ''admin'' \<noteq> []" by (simp add: strips)
  have h3: "'' admin123 '' \<noteq> []" by simp
  have h4: "select_user (strip ''admin'') ?s = Some ?admin"
    using users by (simp add: select_user_def strips)
  have h5: "\<not> check_examples (password ?admin) '' admin123 ''"
    by (simp add: check_examples_def)
  have ok: "login check_examples POST ''admin'' ''admin123'' ?sess ?s =
     (\<lparr>permanent = True, session_user_id = Some 1, session_username = Some ''admin''\<rparr>,
      \<lparr>flashes = [success ''Welcome back, admin!''], page = Redirect ''dashboard''\<rparr>)"
    using users by (simp add: login_def strips select_user_def check_examples_def)
  have "login check_examples POST '' admin '' ''admin123'' ?sess ?s =
      login check_examples POST (strip '' admin '') ''admin123'' ?sess ?s"
    using login_trims_username_only[of check_examples POST "'' admin ''" "''admin123''" ?sess ?s
        check_examples ?s ?admin]
    by blast
  then have a: "login check_examples POST '' admin '' ''admin123'' ?sess ?s =
     (\<lparr>permanent = True, session_user_id = Some 1, session_username = Some ''admin''\<rparr>,
      \<lparr>flashes = [success ''Welcome back, admin!''], page = Redirect ''dashboard''\<rparr>)"
    using ok by (simp add: strips)
  have b: "login check_examples POST ''admin'' '' admin123 '' ?sess ?s =
     (?sess, \<lparr>flashes = [danger ''Invalid username or password.''], page = Login_page\<rparr>)"
    using login_trims_username_only[of check_examples POST "''admin''" "'' admin123 ''" ?sess ?s
        check_examples ?s ?admin] h1 h2 h3 h4 h5
    by blast
  have "strip ''   '' = [] \<or> ''admin123'' = []" by (simp add: strips)
  then have c: "login check_examples POST ''   '' ''admin123'' ?sess ?s =
     (?sess, \<lparr>flashes = [danger ''Please enter both username and password.''],
              page = Login_page\<rparr>)"
    using login_trims_username_only[of check_examples POST "''   ''" "''admin123''" ?sess ?s
        check_examples ?s ?admin] h1
    by blast
  show ?thesis using a b c by blast
qed

end
